theory Spec2Isabelle
  imports Complex_Main "HOL-Library.Sublist" "HOL-Library.AList"
begin

section \<open>Python string operations used by \<open>cobra/io/sbml.py\<close>\<close>

text \<open>
  Identifiers, notes and resource URIs are Python strings; they are modelled as
  \<^typ>\<open>string\<close>. The operations below are the \<open>str\<close> methods the module calls:
  \<open>startswith\<close>, \<open>endswith\<close>, \<open>replace\<close>, \<open>split\<close>, \<open>join\<close> and \<open>strip\<close>.
\<close>

definition startswith :: "string \<Rightarrow> string \<Rightarrow> bool" where
  "startswith s p = prefix p s"

definition endswith :: "string \<Rightarrow> string \<Rightarrow> bool" where
  "endswith s p = suffix p s"

text \<open>\<open>s.replace(old, new)\<close> for a non-empty \<open>old\<close>: leftmost, non-overlapping occurrences.\<close>

function replace_nonempty :: "string \<Rightarrow> string \<Rightarrow> string \<Rightarrow> string" where
  "replace_nonempty old new [] = []"
| "replace_nonempty old new (c # cs) =
     (if old \<noteq> [] \<and> prefix old (c # cs)
      then new @ replace_nonempty old new (drop (length old) (c # cs))
      else c # replace_nonempty old new cs)"
  by pat_completeness auto
termination
  by (relation "measure (\<lambda>(old, new, s). length s)") auto

definition str_replace :: "string \<Rightarrow> string \<Rightarrow> string \<Rightarrow> string" where
  "str_replace old new s =
     (if old = [] then new @ concat (map (\<lambda>c. c # new) s)
      else replace_nonempty old new s)"

text \<open>\<open>s.split(sep)\<close> for a one-character separator; the result is never empty.\<close>

fun str_split :: "char \<Rightarrow> string \<Rightarrow> string list" where
  "str_split sep [] = [[]]"
| "str_split sep (c # cs) =
     (if c = sep then [] # str_split sep cs
      else (case str_split sep cs of
              [] \<Rightarrow> [[c]]
            | t # ts \<Rightarrow> (c # t) # ts))"

fun str_join :: "string \<Rightarrow> string list \<Rightarrow> string" where
  "str_join sep [] = []"
| "str_join sep [x] = x"
| "str_join sep (x # y # ys) = x @ sep @ str_join sep (y # ys)"

text \<open>
  Whitespace of \<open>str.strip()\<close> and of the regular-expression class \<open>\s\<close> on ASCII text:
  space, tab, newline, carriage return, vertical tab and form feed.
\<close>

definition is_space :: "char \<Rightarrow> bool" where
  "is_space c = (c = CHR '' '' \<or> c = CHR 0x09 \<or> c = CHR 0x0A \<or> c = CHR 0x0D
                 \<or> c = CHR 0x0B \<or> c = CHR 0x0C)"

definition str_strip :: "string \<Rightarrow> string" where
  "str_strip s = rev (dropWhile is_space (rev (dropWhile is_space s)))"

section \<open>Identifier codec\<close>

definition SBML_DOT :: string where
  "SBML_DOT = ''__SBML_DOT__''"

definition clip :: "string \<Rightarrow> string \<Rightarrow> string" where
  "clip sid pre = (if startswith sid pre then drop (length pre) sid else sid)"

definition f_gene :: "string \<Rightarrow> string \<Rightarrow> string" where
  "f_gene sid pre = clip (str_replace SBML_DOT ''.'' sid) pre"

definition f_gene_rev :: "string \<Rightarrow> string \<Rightarrow> string" where
  "f_gene_rev sid pre = pre @ str_replace ''.'' SBML_DOT sid"

definition f_specie :: "string \<Rightarrow> string \<Rightarrow> string" where
  "f_specie sid pre = clip sid pre"

definition f_specie_rev :: "string \<Rightarrow> string \<Rightarrow> string" where
  "f_specie_rev sid pre = pre @ sid"

definition f_reaction :: "string \<Rightarrow> string \<Rightarrow> string" where
  "f_reaction sid pre = clip sid pre"

definition f_reaction_rev :: "string \<Rightarrow> string \<Rightarrow> string" where
  "f_reaction_rev sid pre = pre @ sid"

datatype fkey = F_GENE | F_GENE_REV | F_SPECIE | F_SPECIE_REV | F_REACTION | F_REACTION_REV

text \<open>
  An identifier codec configuration is a dictionary from the six keys to functions; the
  empty dictionary (also what \<open>None\<close> is turned into) disables all rewriting.
  \<open>F_REPLACE\<close> is the default configuration, each function with its default prefix.
\<close>

type_synonym f_replace = "fkey \<rightharpoonup> (string \<Rightarrow> string)"

definition F_REPLACE :: f_replace where
  "F_REPLACE k = Some (case k of
       F_GENE \<Rightarrow> (\<lambda>sid. f_gene sid ''G_'')
     | F_GENE_REV \<Rightarrow> (\<lambda>sid. f_gene_rev sid ''G_'')
     | F_SPECIE \<Rightarrow> (\<lambda>sid. f_specie sid ''M_'')
     | F_SPECIE_REV \<Rightarrow> (\<lambda>sid. f_specie_rev sid ''M_'')
     | F_REACTION \<Rightarrow> (\<lambda>sid. f_reaction sid ''R_'')
     | F_REACTION_REV \<Rightarrow> (\<lambda>sid. f_reaction_rev sid ''R_''))"

text \<open>
  The idiom \<open>if f_replace and K in f_replace: sid = f_replace[K](sid)\<close>.
\<close>

definition apply_replace :: "f_replace \<Rightarrow> fkey \<Rightarrow> string \<Rightarrow> string" where
  "apply_replace f k sid = (case f k of Some g \<Rightarrow> g sid | None \<Rightarrow> sid)"

text \<open>
  The three entity kinds of the codec, the prefix of each, and the forward (strip) and
  reverse (restore) transform that the default configuration holds for each kind.
\<close>

datatype kind = KGene | KSpecie | KReaction

fun kind_prefix :: "kind \<Rightarrow> string" where
  "kind_prefix KGene = ''G_''"
| "kind_prefix KSpecie = ''M_''"
| "kind_prefix KReaction = ''R_''"

fun strip_id :: "kind \<Rightarrow> string \<Rightarrow> string" where
  "strip_id KGene x = apply_replace F_REPLACE F_GENE x"
| "strip_id KSpecie x = apply_replace F_REPLACE F_SPECIE x"
| "strip_id KReaction x = apply_replace F_REPLACE F_REACTION x"

fun restore_id :: "kind \<Rightarrow> string \<Rightarrow> string" where
  "restore_id KGene x = apply_replace F_REPLACE F_GENE_REV x"
| "restore_id KSpecie x = apply_replace F_REPLACE F_SPECIE_REV x"
| "restore_id KReaction x = apply_replace F_REPLACE F_REACTION_REV x"

section \<open>Notes codec\<close>

text \<open>
  \<open>_parse_notes_dict\<close> applies \<open>re.findall\<close> with the pattern
  \<^verbatim>\<open><p>\s*(\w+\s*\w*)\s*:\s*([\w|\s]+)<\<close>
  to the notes string of an element. The pattern uses literal characters, three
  character classes under the greedy quantifiers \<open>*\<close> and \<open>+\<close>, and two groups; it is
  modelled as a list of items run by a backtracking matcher that tries the alternatives
  in the order of Python's engine (a greedy quantifier first takes one more character and
  gives it back only when the rest of the pattern fails). \<open>Mark\<close> records the position
  where a group opens or closes. The classes are those of ASCII text.
\<close>

definition is_word :: "char \<Rightarrow> bool" where
  "is_word c = (c \<in> set ''abcdefghijklmnopqrstuvwxyzABCDEFGHIJKLMNOPQRSTUVWXYZ0123456789_'')"

datatype cclass = CWord | CSpace | CValue

fun in_class :: "cclass \<Rightarrow> char \<Rightarrow> bool" where
  "in_class CWord c = is_word c"
| "in_class CSpace c = is_space c"
| "in_class CValue c = (is_word c \<or> c = CHR ''|'' \<or> is_space c)"

datatype item = Lit char | Star cclass | Plus cclass | Mark

text \<open>
  \<open>rmatch p s\<close> matches the pattern \<open>p\<close> at the start of \<open>s\<close>: \<open>None\<close> when it does not
  match, otherwise the texts that remained at each mark and after the whole match.
\<close>

fun rmatch :: "item list \<Rightarrow> string \<Rightarrow> (string list \<times> string) option" where
  "rmatch [] s = Some ([], s)"
| "rmatch (Mark # r) s =
     (case rmatch r s of None \<Rightarrow> None | Some (ms, e) \<Rightarrow> Some (s # ms, e))"
| "rmatch (Lit c # r) [] = None"
| "rmatch (Lit c # r) (d # s) = (if c = d then rmatch r s else None)"
| "rmatch (Star k # r) [] = rmatch r []"
| "rmatch (Star k # r) (d # s) =
     (if in_class k d
      then (case rmatch (Star k # r) s of
              Some x \<Rightarrow> Some x
            | None \<Rightarrow> rmatch r (d # s))
      else rmatch r (d # s))"
| "rmatch (Plus k # r) [] = None"
| "rmatch (Plus k # r) (d # s) = (if in_class k d then rmatch (Star k # r) s else None)"

definition notes_pattern :: "item list" where
  "notes_pattern =
     [Lit CHR ''<'', Lit CHR ''p'', Lit CHR ''>'', Star CSpace,
      Mark, Plus CWord, Star CSpace, Star CWord, Mark,
      Star CSpace, Lit CHR '':'', Star CSpace,
      Mark, Plus CValue, Mark,
      Lit CHR ''<'']"

text \<open>The text of a group: from the mark where it opens up to the mark where it closes.\<close>

definition group_text :: "string \<Rightarrow> string \<Rightarrow> string" where
  "group_text at_open at_close = take (length at_open - length at_close) at_open"

definition two_groups :: "string list \<Rightarrow> string \<times> string" where
  "two_groups ms =
     (case ms of
        [a, b, c, d] \<Rightarrow> (group_text a b, group_text c d)
      | _ \<Rightarrow> ([], []))"

text \<open>
  \<open>re.findall\<close>: the matches from left to right, the search going on where the last match
  ended and otherwise one character further. The pattern cannot match the empty text, so
  the search ends with the string.
\<close>

function notes_findall :: "string \<Rightarrow> (string \<times> string) list" where
  "notes_findall [] = []"
| "notes_findall (c # cs) =
     (case rmatch notes_pattern (c # cs) of
        Some (ms, e) \<Rightarrow> two_groups ms # notes_findall e
      | None \<Rightarrow> notes_findall cs)"
  by pat_completeness auto
termination
proof (relation "measure length")
  show "wf (measure length)" by simp
next
  fix c :: char and cs :: string and x2 :: "string list \<times> string" and ms e
  assume m: "rmatch notes_pattern (c # cs) = Some x2" and x: "(ms, e) = x2"
  have le: "\<And>p s ms e. rmatch p s = Some (ms, e) \<Longrightarrow> length e \<le> length s"
  proof -
    fix p :: "item list" and s :: string and ms :: "string list" and e :: string
    show "rmatch p s = Some (ms, e) \<Longrightarrow> length e \<le> length s"
    proof (induction p s arbitrary: ms e rule: rmatch.induct)
      case (6 k r d s)
      then show ?case
        by (fastforce split: if_splits option.splits)
    qed (fastforce split: if_splits option.splits)+
  qed
  from m x have "rmatch (tl notes_pattern) cs = Some (ms, e)"
    by (simp add: notes_pattern_def split: if_splits)
  then have "length e \<le> length cs"
    by (rule le)
  then show "(e, c # cs) \<in> measure length"
    by simp
next
  fix c :: char and cs :: string
  show "(cs, c # cs) \<in> measure length" by simp
qed

text \<open>
  The dictionary comprehension \<open>{k.strip(): v.strip() for (k, v) in matches}\<close> keeps, for a
  key that occurs twice, the place of its first occurrence and the value of its last; this
  is \<open>AList.update\<close> on an association list. The second comprehension drops the entries
  with an empty value. The argument is what \<open>sbase.getNotesString()\<close> returned.
\<close>

definition parse_notes_dict :: "string \<Rightarrow> (string \<times> string) list" where
  "parse_notes_dict notes =
     (if notes \<noteq> [] \<and> length notes > 0
      then (let matches = notes_findall notes;
                d = foldl (\<lambda>d (k, v). AList.update (str_strip k) (str_strip v) d) [] matches
            in filter (\<lambda>(k, v). length v > 0) d)
      else [])"

text \<open>
  \<open>_sbase_notes_dict\<close>: the text handed to \<open>sbase.setNotes\<close>, or nothing for an empty
  dictionary. Keys and values are strings here (\<open>format\<close> prints them as they are).
\<close>

definition notes_markup :: "(string \<times> string) list \<Rightarrow> string option" where
  "notes_markup notes =
     (if notes \<noteq> [] \<and> length notes > 0
      then Some (str_join [CHR 0x0A]
             ([''<html xmlns = \"http://www.w3.org/1999/xhtml\" >'']
              @ map (\<lambda>(k, v). ''<p>'' @ k @ '': '' @ v @ ''</p>'') notes
              @ [''</html>'']))
      else None)"

section \<open>Errors\<close>

text \<open>
  The exceptions the module raises itself (\<open>CobraSBMLError\<close>) or lets escape from a
  failing Python operation, each with its message.
\<close>

datatype error =
    CobraSBMLError string
  | KeyError string
  | IndexError string
  | AttributeError string
  | ValueError string
  | NameError string
  | Exception string

fun error_message :: "error \<Rightarrow> string" where
  "error_message (CobraSBMLError m) = m"
| "error_message (KeyError m) = m"
| "error_message (IndexError m) = m"
| "error_message (AttributeError m) = m"
| "error_message (ValueError m) = m"
| "error_message (NameError m) = m"
| "error_message (Exception m) = m"

section \<open>Elements of an SBML document\<close>

text \<open>
  The document tree belongs to libsbml; the module reads and writes it through getters and
  setters. An element is modelled as a record of the attributes the module touches. What
  every element has (\<open>SBase\<close>) is the record \<open>sbase\<close>: id, name, meta id, the SBO term,
  the controlled-vocabulary terms and the notes string (empty when there are no notes).
  The string getters of libsbml return the empty string for an unset attribute.
\<close>

datatype qualifier_type = BIOLOGICAL_QUALIFIER | MODEL_QUALIFIER

datatype qualifier =
    BQB_IS | BQB_HAS_PART | BQB_IS_PART_OF | BQB_IS_VERSION_OF | BQB_HAS_VERSION
  | BQB_IS_HOMOLOG_TO | BQB_IS_DESCRIBED_BY | BQB_IS_ENCODED_BY | BQB_ENCODES
  | BQB_OCCURS_IN | BQB_HAS_PROPERTY | BQB_IS_PROPERTY_OF | BQB_HAS_TAXON | BQB_UNKNOWN
  | BQM_IS | BQM_IS_DESCRIBED_BY | BQM_IS_DERIVED_FROM | BQM_IS_INSTANCE_OF
  | BQM_HAS_INSTANCE | BQM_UNKNOWN

record cvterm =
  cv_qualifier_type :: qualifier_type
  cv_qualifier :: qualifier
  cv_resources :: "string list"

record sbase =
  sb_id :: string
  sb_name :: string
  sb_meta_id :: "string option"
  sb_sbo_term :: "string option"
  sb_cvterms :: "cvterm list"
  sb_notes :: string

definition new_sbase :: sbase where
  "new_sbase = \<lparr>sb_id = [], sb_name = [], sb_meta_id = None, sb_sbo_term = None,
                 sb_cvterms = [], sb_notes = []\<rparr>"

text \<open>
  \<open>setSBOTerm\<close> with a string takes a term of the form \<open>SBO:\<close> and seven digits and leaves
  the element unchanged otherwise (the module logs the return code and goes on);
  \<open>addCVTerm\<close> attaches the term after those already there; \<open>setNotes\<close> stores the text.
\<close>

definition is_sbo_term :: "string \<Rightarrow> bool" where
  "is_sbo_term t = (length t = 11 \<and> take 4 t = ''SBO:'' \<and> list_all (\<lambda>c. c \<in> set ''0123456789'') (drop 4 t))"

definition setSBOTerm :: "string \<Rightarrow> 'a sbase_scheme \<Rightarrow> 'a sbase_scheme" where
  "setSBOTerm t sb = (if is_sbo_term t then sb\<lparr>sb_sbo_term := Some t\<rparr> else sb)"

definition addCVTerm :: "cvterm \<Rightarrow> 'a sbase_scheme \<Rightarrow> 'a sbase_scheme" where
  "addCVTerm cv sb = sb\<lparr>sb_cvterms := sb_cvterms sb @ [cv]\<rparr>"

definition sbase_notes_dict :: "'a sbase_scheme \<Rightarrow> (string \<times> string) list \<Rightarrow> 'a sbase_scheme" where
  "sbase_notes_dict sb notes =
     (case notes_markup notes of
        None \<Rightarrow> sb
      | Some text \<Rightarrow> sb\<lparr>sb_notes := text\<rparr>)"

section \<open>Annotation codec\<close>

text \<open>
  A cobra annotation maps a provider to a string or to a list whose items are strings or
  (qualifier, entity) pairs. The dictionary is an association list in insertion order.
\<close>

datatype ann_item = Bare string | Qualified string string

datatype ann_value = AStr string | AItems "ann_item list"

type_synonym annotation = "(string \<times> ann_value) list"

definition URL_IDENTIFIERS_PREFIX :: string where
  "URL_IDENTIFIERS_PREFIX = ''https://identifiers.org''"

definition QUALIFIER_TYPES :: "(string \<times> qualifier) list" where
  "QUALIFIER_TYPES =
     [(''is'', BQB_IS), (''hasPart'', BQB_HAS_PART), (''isPartOf'', BQB_IS_PART_OF),
      (''isVersionOf'', BQB_IS_VERSION_OF), (''hasVersion'', BQB_HAS_VERSION),
      (''isHomologTo'', BQB_IS_HOMOLOG_TO), (''isDescribedBy'', BQB_IS_DESCRIBED_BY),
      (''isEncodedBy'', BQB_IS_ENCODED_BY), (''encodes'', BQB_ENCODES),
      (''occursIn'', BQB_OCCURS_IN), (''hasProperty'', BQB_HAS_PROPERTY),
      (''isPropertyOf'', BQB_IS_PROPERTY_OF), (''hasTaxon'', BQB_HAS_TAXON),
      (''unknown'', BQB_UNKNOWN), (''bqm_is'', BQM_IS),
      (''bqm_isDescribedBy'', BQM_IS_DESCRIBED_BY),
      (''bqm_isDerivedFrom'', BQM_IS_DERIVED_FROM),
      (''bqm_isInstanceOf'', BQM_IS_INSTANCE_OF),
      (''bqm_hasInstance'', BQM_HAS_INSTANCE), (''bqm_unknown'', BQM_UNKNOWN)]"

text \<open>
  \<open>_parse_annotations\<close>. One resource URI is taken up into the dictionary built so far;
  the second component collects the warnings.
\<close>

definition parse_resource :: "annotation \<times> string list \<Rightarrow> string \<Rightarrow> annotation \<times> string list" where
  "parse_resource st uri =
     (let annotation = fst st; tokens = str_split CHR ''/'' uri in
      if length tokens \<noteq> 5 \<or> \<not> (tokens ! 2 = ''identifiers.org'')
      then (annotation, snd st @
              [uri @ '' does not conform to http(s)://identifiers.org/collection/id''])
      else (let provider = tokens ! 3; identifier = tokens ! 4 in
            (case map_of annotation provider of
               Some (AStr one) \<Rightarrow>
                 (AList.update provider (AItems [Bare one, Bare identifier]) annotation, snd st)
             | Some (AItems several) \<Rightarrow>
                 (AList.update provider (AItems (several @ [Bare identifier])) annotation, snd st)
             | None \<Rightarrow> (AList.update provider (AStr identifier) annotation, snd st))))"

definition parse_annotations_log :: "'a sbase_scheme \<Rightarrow> annotation \<times> string list" where
  "parse_annotations_log sb =
     (let annotation = (case sb_sbo_term sb of
                          Some t \<Rightarrow> [(''sbo'', AStr t)]
                        | None \<Rightarrow> [])
      in foldl parse_resource (annotation, []) (concat (map cv_resources (sb_cvterms sb))))"

definition parse_annotations :: "'a sbase_scheme \<Rightarrow> annotation" where
  "parse_annotations sb = fst (parse_annotations_log sb)"

text \<open>
  \<open>_sbase_annotations\<close>. \<open>standardize\<close> is the result of the two normalising loops on the
  copy of the annotation: every value a list of (qualifier, entity) pairs.
\<close>

fun standardize_item :: "ann_item \<Rightarrow> string \<times> string" where
  "standardize_item (Bare v) = (''is'', v)"
| "standardize_item (Qualified q e) = (q, e)"

fun standardize_value :: "ann_value \<Rightarrow> (string \<times> string) list" where
  "standardize_value (AStr v) = [(''is'', v)]"
| "standardize_value (AItems items) = map standardize_item items"

definition standardize :: "annotation \<Rightarrow> (string \<times> (string \<times> string) list) list" where
  "standardize annotation = map (\<lambda>(key, v). (key, standardize_value v)) annotation"

definition make_cvterm :: "string \<Rightarrow> string \<times> string \<Rightarrow> cvterm" where
  "make_cvterm provider item =
     (let qualifier_str = fst item; entity = snd item;
          qualifier = (case map_of QUALIFIER_TYPES qualifier_str of
                         None \<Rightarrow> BQB_IS
                       | Some q \<Rightarrow> q);
          qualifier_type = (if startswith qualifier_str ''bqm_''
                            then MODEL_QUALIFIER else BIOLOGICAL_QUALIFIER);
          resource = URL_IDENTIFIERS_PREFIX @ ''/'' @ provider @ ''/'' @ entity
      in \<lparr>cv_qualifier_type = qualifier_type, cv_qualifier = qualifier,
           cv_resources = [resource]\<rparr>)"

fun annotate_providers ::
  "(string \<times> (string \<times> string) list) list \<Rightarrow> 'a sbase_scheme \<Rightarrow> error + 'a sbase_scheme" where
  "annotate_providers [] sb = Inr sb"
| "annotate_providers ((provider, data) # rest) sb =
     (if provider = ''SBO'' \<or> provider = ''sbo''
      then (case data of
              [] \<Rightarrow> Inl (IndexError ''list index out of range'')
            | first # _ \<Rightarrow> annotate_providers rest (setSBOTerm (snd first) sb))
      else annotate_providers rest
             (foldl (\<lambda>sb item. addCVTerm (make_cvterm provider item) sb) sb data))"

definition sbase_annotations :: "'a sbase_scheme \<Rightarrow> annotation \<Rightarrow> error + 'a sbase_scheme" where
  "sbase_annotations sb annotation =
     (if annotation = [] \<or> length annotation = 0 then Inr sb
      else annotate_providers (standardize annotation)
             (sb\<lparr>sb_meta_id := Some (''meta_'' @ sb_id sb)\<rparr>))"

section \<open>The SBML document\<close>

text \<open>
  The elements below extend \<open>sbase\<close> by the attributes the module reads or writes. A
  plugin of a package (fbc, groups) that an element may or may not carry is an option.
  Numbers are Python floats; they are modelled as reals (no rounding, no NaN).
\<close>

record unit =
  u_kind :: string
  u_scale :: int
  u_multiplier :: real
  u_exponent :: int

record unit_definition =
  ud_id :: string
  ud_units :: "unit list"

record sbml_parameter = sbase +
  p_value :: real
  p_constant :: bool
  p_units :: "string option"

record sbml_compartment = sbase +
  c_constant :: bool

record fbc_species_plugin =
  fsp_charge :: "int option"
  fsp_chemical_formula :: "string option"

record sbml_species = sbase +
  sp_compartment :: string
  sp_constant :: bool
  sp_boundary_condition :: bool
  sp_has_only_substance_units :: bool
  sp_charge :: "int option"
  sp_fbc :: "fbc_species_plugin option"

record species_reference =
  sr_species :: string
  sr_stoichiometry :: real
  sr_constant :: bool

record local_parameter =
  lp_id :: string
  lp_value :: real

record kinetic_law =
  kl_parameters :: "local_parameter list"

datatype fbc_association =
    GeneProductRef string
  | FbcAnd "fbc_association list"
  | FbcOr "fbc_association list"

text \<open>
  \<open>frp_gpa\<close>: \<open>None\<close> when the reaction has no gene product association element,
  \<open>Some None\<close> when it has one that holds no association.
\<close>

record fbc_reaction_plugin =
  frp_lower_flux_bound :: string
  frp_upper_flux_bound :: string
  frp_gpa :: "fbc_association option option"

record sbml_reaction = sbase +
  rx_fast :: bool
  rx_reversible :: bool
  rx_reactants :: "species_reference list"
  rx_products :: "species_reference list"
  rx_fbc :: "fbc_reaction_plugin option"
  rx_kinetic_law :: "kinetic_law option"

record gene_product = sbase +
  gp_label :: string

record flux_objective =
  fo_reaction :: string
  fo_coefficient :: real

record fbc_objective =
  ob_id :: string
  ob_type :: string
  ob_flux_objectives :: "flux_objective list"

record fbc_model_plugin =
  fm_strict :: "bool option"
  fm_gene_products :: "gene_product list"
  fm_objectives :: "fbc_objective list"
  fm_active_objective :: string

record sbml_member =
  mb_id_ref :: "string option"
  mb_meta_id_ref :: "string option"
  mb_name :: string

record sbml_group = sbase +
  gr_kind :: "string option"
  gr_members :: "sbml_member list"

record model_creator =
  mc_family_name :: "string option"
  mc_given_name :: "string option"
  mc_organisation :: "string option"
  mc_email :: "string option"

record model_history =
  mh_created_date :: "string option"
  mh_creators :: "model_creator list"

record sbml_model = sbase +
  md_history :: "model_history option"
  md_unit_definitions :: "unit_definition list"
  md_compartments :: "sbml_compartment list"
  md_species :: "sbml_species list"
  md_parameters :: "sbml_parameter list"
  md_reactions :: "sbml_reaction list"
  md_fbc :: "fbc_model_plugin option"
  md_groups :: "sbml_group list option"

text \<open>
  An entry of the error log that libsbml fills when it checks a document, with the
  severity and the texts that \<open>_error_string\<close> prints.
\<close>

datatype severity = SEV_INFO | SEV_WARNING | SEV_ERROR | SEV_FATAL | SEV_SCHEMA_ERROR

record sbml_error =
  er_severity :: severity
  er_severity_string :: string
  er_category :: string
  er_package :: string
  er_line :: nat
  er_short_message :: string
  er_message :: string

text \<open>
  A document: level and version, the packages with their versions (in the order of
  \<open>doc.getPlugin(k)\<close>), the model if there is one, and the errors logged when the
  document was read.
\<close>

record sbml_document = sbase +
  doc_level :: nat
  doc_version :: nat
  doc_packages :: "(string \<times> nat) list"
  doc_model :: "sbml_model option"
  doc_errors :: "sbml_error list"

section \<open>The cobra model\<close>

text \<open>
  Modelled from the spec: the classes \<open>Model\<close>, \<open>Metabolite\<close>, \<open>Gene\<close>, \<open>Reaction\<close> and
  \<open>Group\<close> of \<open>cobra.core\<close> and the objective helpers of \<open>cobra.util.solver\<close> are not part
  of the module. Following the data model of the specification, a model holds ordered
  collections of its entities that are looked up by id, a reaction holds its
  stoichiometry as a mapping from metabolite to signed coefficient and its gene
  association as a string, a group holds its members as a list of metabolites, reactions
  or genes, and the objective is a direction with a mapping from reaction to coefficient.
\<close>

type_synonym notes_dict = "(string \<times> string) list"

record metabolite =
  met_id :: string
  met_name :: string
  met_compartment :: string
  met_charge :: "int option"
  met_formula :: "string option"
  met_notes :: notes_dict
  met_annotation :: annotation

record gene =
  gene_id :: string
  gene_name :: "string option"
  gene_notes :: notes_dict
  gene_annotation :: annotation

record reaction =
  rxn_id :: string
  rxn_name :: string
  rxn_lower_bound :: real
  rxn_upper_bound :: real
  rxn_metabolites :: "(string \<times> real) list"
  rxn_gene_reaction_rule :: string
  rxn_notes :: notes_dict
  rxn_annotation :: annotation

datatype member = MMetabolite metabolite | MReaction reaction | MGene gene

record cgroup =
  grp_id :: string
  grp_name :: string
  grp_kind :: string
  grp_members :: "member list"
  grp_notes :: notes_dict
  grp_annotation :: annotation

record sbml_meta =
  meta_model_id :: string
  meta_level :: nat
  meta_version :: nat
  meta_packages :: "(string \<times> nat) list"
  meta_creators :: "model_creator list"
  meta_created :: "string option"
  meta_notes :: notes_dict
  meta_annotation :: annotation
  meta_info :: string

record cobra_model =
  cm_id :: "string option"
  cm_name :: "string option"
  cm_sbml :: "sbml_meta option"
  cm_notes :: notes_dict
  cm_annotation :: annotation
  cm_compartments :: "(string \<times> string) list"
  cm_metabolites :: "metabolite list"
  cm_genes :: "gene list"
  cm_reactions :: "reaction list"
  cm_groups :: "cgroup list"
  cm_objective :: "(string \<times> real) list"
  cm_direction :: string

text \<open>
  Modelled from the spec: the constructor \<open>Model(id)\<close> of \<open>cobra.core\<close>, a model with that
  id, empty collections and the empty maximizing objective.
\<close>

definition Model :: "string \<Rightarrow> cobra_model" where
  "Model mid = \<lparr>cm_id = Some mid, cm_name = None, cm_sbml = None, cm_notes = [],
                cm_annotation = [], cm_compartments = [], cm_metabolites = [], cm_genes = [],
                cm_reactions = [], cm_groups = [], cm_objective = [], cm_direction = ''max''\<rparr>"

text \<open>
  Modelled from the spec: \<open>DictList.get_by_id\<close> of \<open>cobra.core\<close>, the lookup by id in an
  ordered id-indexed collection: the entity with the id, or \<open>KeyError\<close>.
\<close>

definition get_by_id :: "('a \<Rightarrow> string) \<Rightarrow> 'a list \<Rightarrow> string \<Rightarrow> error + 'a" where
  "get_by_id ident xs i =
     (case find (\<lambda>x. ident x = i) xs of
        None \<Rightarrow> Inl (KeyError i)
      | Some x \<Rightarrow> Inr x)"

text \<open>
  Modelled from the spec: \<open>reaction.objective_coefficient\<close> of \<open>cobra.core\<close> and
  \<open>linear_reaction_coefficients\<close> and \<open>set_objective\<close> of \<open>cobra.util.solver\<close>. The
  objective is the mapping from reaction to coefficient that \<open>set_objective\<close> installed;
  the coefficient of a reaction is its entry, zero when it has none.
\<close>

definition objective_coefficient :: "cobra_model \<Rightarrow> reaction \<Rightarrow> real" where
  "objective_coefficient m r =
     (case map_of (cm_objective m) (rxn_id r) of
        None \<Rightarrow> 0
      | Some c \<Rightarrow> c)"

section \<open>Writing a model\<close>

text \<open>
  The defaults of the process-wide \<open>cobra.Configuration()\<close>, read once when the module is
  loaded (\<open>LOWER_BOUND\<close>, \<open>UPPER_BOUND\<close>), are a parameter of the writer.
\<close>

record configuration =
  LOWER_BOUND :: real
  UPPER_BOUND :: real

definition LOWER_BOUND_ID :: string where "LOWER_BOUND_ID = ''cobra_default_lb''"
definition UPPER_BOUND_ID :: string where "UPPER_BOUND_ID = ''cobra_default_ub''"
definition ZERO_BOUND_ID :: string where "ZERO_BOUND_ID = ''cobra_0_bound''"

definition SBO_FBA_FRAMEWORK :: string where "SBO_FBA_FRAMEWORK = ''SBO:0000624''"
definition SBO_DEFAULT_FLUX_BOUND :: string where "SBO_DEFAULT_FLUX_BOUND = ''SBO:0000626''"
definition SBO_FLUX_BOUND :: string where "SBO_FLUX_BOUND = ''SBO:0000625''"

definition LONG_SHORT_DIRECTION :: "(string \<times> string) list" where
  "LONG_SHORT_DIRECTION = [(''maximize'', ''max''), (''minimize'', ''min'')]"

definition SHORT_LONG_DIRECTION :: "(string \<times> string) list" where
  "SHORT_LONG_DIRECTION = [(''min'', ''minimize''), (''max'', ''maximize'')]"

definition UNITS_FLUX :: "string \<times> unit list" where
  "UNITS_FLUX = (''mmol_per_gDW_per_hr'',
     [\<lparr>u_kind = ''mole'', u_scale = -3, u_multiplier = 1, u_exponent = 1\<rparr>,
      \<lparr>u_kind = ''gram'', u_scale = 0, u_multiplier = 1, u_exponent = -1\<rparr>,
      \<lparr>u_kind = ''second'', u_scale = 0, u_multiplier = 3600, u_exponent = -1\<rparr>])"

text \<open>Running a loop whose body may raise: the first error ends it.\<close>

fun fold_err :: "('a \<Rightarrow> 's \<Rightarrow> error + 's) \<Rightarrow> 'a list \<Rightarrow> 's \<Rightarrow> error + 's" where
  "fold_err f [] st = Inr st"
| "fold_err f (x # xs) st =
     (case f x st of
        Inl e \<Rightarrow> Inl e
      | Inr st' \<Rightarrow> fold_err f xs st')"

fun map_err :: "('a \<Rightarrow> error + 'b) \<Rightarrow> 'a list \<Rightarrow> error + 'b list" where
  "map_err f [] = Inr []"
| "map_err f (x # xs) =
     (case f x of
        Inl e \<Rightarrow> Inl e
      | Inr y \<Rightarrow> (case map_err f xs of
                    Inl e \<Rightarrow> Inl e
                  | Inr ys \<Rightarrow> Inr (y # ys)))"

text \<open>
  \<open>_create_parameter\<close>. \<open>units\<close> is the truth value of the argument of that name and
  \<open>flux_udef\<close> the unit definition handed in, if any.
\<close>

definition create_parameter ::
  "sbml_model \<Rightarrow> string \<Rightarrow> real \<Rightarrow> string option \<Rightarrow> bool \<Rightarrow> bool \<Rightarrow> unit_definition option
   \<Rightarrow> error + sbml_model" where
  "create_parameter model pid val sbo constant units flux_udef =
     (let p = \<lparr>sb_id = pid, sb_name = [], sb_meta_id = None, sb_sbo_term = None,
               sb_cvterms = [], sb_notes = [],
               p_value = val, p_constant = constant, p_units = None\<rparr>;
          p = (case sbo of
                 None \<Rightarrow> p
               | Some t \<Rightarrow> (if t \<noteq> [] then setSBOTerm t p else p))
      in if units
         then (case flux_udef of
                 None \<Rightarrow> Inl (AttributeError ''NoneType object has no attribute getId'')
               | Some u \<Rightarrow> Inr (model\<lparr>md_parameters :=
                              md_parameters model @ [p\<lparr>p_units := Some (ud_id u)\<rparr>]\<rparr>))
         else Inr (model\<lparr>md_parameters := md_parameters model @ [p]\<rparr>))"

text \<open>\<open>getattr(reaction, bound_type)\<close> for the two bounds of a reaction.\<close>

definition getattr_bound :: "reaction \<Rightarrow> string \<Rightarrow> error + real" where
  "getattr_bound reaction bound_type =
     (if bound_type = ''lower_bound'' then Inr (rxn_lower_bound reaction)
      else if bound_type = ''upper_bound'' then Inr (rxn_upper_bound reaction)
      else Inl (AttributeError bound_type))"

text \<open>
  \<open>_create_bound\<close>: the id of the parameter that holds the bound, with the model in which
  a new parameter may have been created.
\<close>

definition create_bound ::
  "configuration \<Rightarrow> sbml_model \<Rightarrow> reaction \<Rightarrow> string \<Rightarrow> f_replace \<Rightarrow> bool
   \<Rightarrow> unit_definition option \<Rightarrow> error + (sbml_model \<times> string)" where
  "create_bound cfg model reaction bound_type f units flux_udef =
     (case getattr_bound reaction bound_type of
        Inl e \<Rightarrow> Inl e
      | Inr val \<Rightarrow>
          if val = LOWER_BOUND cfg then Inr (model, LOWER_BOUND_ID)
          else if val = 0 then Inr (model, ZERO_BOUND_ID)
          else if val = UPPER_BOUND cfg then Inr (model, UPPER_BOUND_ID)
          else (let rid = apply_replace f F_REACTION_REV (rxn_id reaction);
                    pid = rid @ ''_'' @ bound_type
                in (case create_parameter model pid val (Some SBO_FLUX_BOUND) True units flux_udef of
                      Inl e \<Rightarrow> Inl e
                    | Inr model' \<Rightarrow> Inr (model', pid))))"

definition write_compartment :: "string \<times> string \<Rightarrow> sbml_compartment" where
  "write_compartment c =
     \<lparr>sb_id = fst c, sb_name = snd c, sb_meta_id = None, sb_sbo_term = None,
      sb_cvterms = [], sb_notes = [], c_constant = True\<rparr>"

definition write_species :: "f_replace \<Rightarrow> metabolite \<Rightarrow> error + sbml_species" where
  "write_species f met =
     (let mid = apply_replace f F_SPECIE_REV (met_id met);
          s = \<lparr>sb_id = mid, sb_name = met_name met, sb_meta_id = None, sb_sbo_term = None,
               sb_cvterms = [], sb_notes = [],
               sp_compartment = met_compartment met, sp_constant = True,
               sp_boundary_condition = True, sp_has_only_substance_units = False,
               sp_charge = None,
               sp_fbc = Some \<lparr>fsp_charge = met_charge met,
                               fsp_chemical_formula = met_formula met\<rparr>\<rparr>
      in (case sbase_annotations s (met_annotation met) of
            Inl e \<Rightarrow> Inl e
          | Inr s' \<Rightarrow> Inr (sbase_notes_dict s' (met_notes met))))"

definition write_gene :: "f_replace \<Rightarrow> gene \<Rightarrow> error + gene_product" where
  "write_gene f g =
     (let gid = apply_replace f F_GENE_REV (gene_id g);
          gname = (case gene_name g of
                     None \<Rightarrow> gid
                   | Some n \<Rightarrow> (if length n = 0 then gid else n));
          gp = \<lparr>sb_id = gid, sb_name = gname, sb_meta_id = None, sb_sbo_term = None,
                sb_cvterms = [], sb_notes = [], gp_label = gid\<rparr>
      in (case sbase_annotations gp (gene_annotation g) of
            Inl e \<Rightarrow> Inl e
          | Inr gp' \<Rightarrow> Inr (sbase_notes_dict gp' (gene_notes g))))"

text \<open>One entry of \<open>reaction._metabolites\<close> becomes a reactant or a product.\<close>

definition write_stoichiometry ::
  "f_replace \<Rightarrow> string \<times> real \<Rightarrow> 'a sbml_reaction_scheme \<Rightarrow> 'a sbml_reaction_scheme" where
  "write_stoichiometry f entry r =
     (let sid = apply_replace f F_SPECIE_REV (fst entry); stoichiometry = snd entry in
      if stoichiometry < 0
      then r\<lparr>rx_reactants := rx_reactants r @
               [\<lparr>sr_species = sid, sr_stoichiometry = - stoichiometry, sr_constant = True\<rparr>]\<rparr>
      else r\<lparr>rx_products := rx_products r @
               [\<lparr>sr_species = sid, sr_stoichiometry = stoichiometry, sr_constant = True\<rparr>]\<rparr>)"

text \<open>The rewriting of the tokens of a gene reaction rule before it is written.\<close>

definition write_gpr_tokens :: "f_replace \<Rightarrow> string \<Rightarrow> string" where
  "write_gpr_tokens f gpr =
     (case f F_GENE_REV of
        None \<Rightarrow> gpr
      | Some g \<Rightarrow> str_join '' ''
          (map (\<lambda>t. if t \<notin> set [''and'', ''or'', ''('', '')''] then g t else t)
               (str_split CHR '' '' gpr)))"

text \<open>
  What the module asks of libsbml beyond getters and setters: \<open>setAssociation\<close> with a
  string parses the infix text into an association tree (none when the text does not
  parse); the reader asks for the conversion of an fbc version 1 model (which may fail);
  the validator asks for the errors that \<open>checkInternalConsistency\<close> and
  \<open>checkConsistency\<close> (under the chosen settings for the unit and modelling practice
  categories) add to the log of a document.
\<close>

record libsbml =
  parse_infix :: "string \<Rightarrow> fbc_association option"
  convert_fbc_v1_to_v2 :: "sbml_model \<Rightarrow> sbml_model option"
  checkInternalConsistency :: "sbml_document \<Rightarrow> sbml_error list"
  checkConsistency :: "bool \<Rightarrow> bool \<Rightarrow> sbml_document \<Rightarrow> sbml_error list"

text \<open>
  The body of the loop over the reactions. The state is the model under construction and
  the flux objectives of the objective \<open>obj\<close>. \<open>flux_udef\<close> is the local variable of that
  name, which is bound only when \<open>units\<close> is true; naming it as an argument of
  \<open>_create_bound\<close> raises otherwise.
\<close>

definition write_reaction ::
  "configuration \<Rightarrow> libsbml \<Rightarrow> cobra_model \<Rightarrow> f_replace \<Rightarrow> bool \<Rightarrow> unit_definition option
   \<Rightarrow> reaction \<Rightarrow> sbml_model \<times> flux_objective list
   \<Rightarrow> error + (sbml_model \<times> flux_objective list)" where
  "write_reaction cfg lib cobra_model f units flux_udef reaction st =
     (let model = fst st; flux_objs = snd st;
          rid = apply_replace f F_REACTION_REV (rxn_id reaction);
          r = \<lparr>sb_id = rid, sb_name = rxn_name reaction, sb_meta_id = None,
               sb_sbo_term = None, sb_cvterms = [], sb_notes = [],
               rx_fast = False, rx_reversible = (rxn_lower_bound reaction < 0),
               rx_reactants = [], rx_products = [],
               rx_fbc = Some \<lparr>frp_lower_flux_bound = [], frp_upper_flux_bound = [],
                               frp_gpa = None\<rparr>,
               rx_kinetic_law = None\<rparr>
      in case sbase_annotations r (rxn_annotation reaction) of
           Inl e \<Rightarrow> Inl e
         | Inr r1 \<Rightarrow>
      (let r2 = sbase_notes_dict r1 (rxn_notes reaction);
           r3 = foldl (\<lambda>r entry. write_stoichiometry f entry r) r2 (rxn_metabolites reaction)
       in if \<not> units then Inl (NameError ''flux_udef'')
          else case create_bound cfg model reaction ''lower_bound'' f units flux_udef of
                 Inl e \<Rightarrow> Inl e
               | Inr (model1, lb_id) \<Rightarrow>
               (case create_bound cfg model1 reaction ''upper_bound'' f units flux_udef of
                  Inl e \<Rightarrow> Inl e
                | Inr (model2, ub_id) \<Rightarrow>
                (let gpr = rxn_gene_reaction_rule reaction;
                     gpa = (if length gpr > 0
                            then Some (parse_infix lib (write_gpr_tokens f gpr))
                            else None);
                     r4 = r3\<lparr>rx_fbc := Some \<lparr>frp_lower_flux_bound = lb_id,
                                             frp_upper_flux_bound = ub_id,
                                             frp_gpa = gpa\<rparr>\<rparr>;
                     flux_objs' =
                       (if objective_coefficient cobra_model reaction \<noteq> 0
                        then flux_objs @
                               [\<lparr>fo_reaction = rid,
                                 fo_coefficient = objective_coefficient cobra_model reaction\<rparr>]
                        else flux_objs)
                 in Inr (model2\<lparr>md_reactions := md_reactions model2 @ [r4]\<rparr>, flux_objs')))))"

text \<open>
  Groups. \<open>setKind\<close> takes one of the three kinds of the groups package and leaves the
  kind unset otherwise. The id of a member is rewritten by the transform of its class.
\<close>

definition setKind :: "string \<Rightarrow> 'a sbml_group_scheme \<Rightarrow> 'a sbml_group_scheme" where
  "setKind k g =
     (if k \<in> set [''classification'', ''partonomy'', ''collection'']
      then g\<lparr>gr_kind := Some k\<rparr> else g)"

fun write_member :: "f_replace \<Rightarrow> member \<Rightarrow> sbml_member" where
  "write_member f (MReaction r) =
     \<lparr>mb_id_ref = Some (apply_replace f F_REACTION_REV (rxn_id r)), mb_meta_id_ref = None,
      mb_name = rxn_name r\<rparr>"
| "write_member f (MMetabolite m) =
     \<lparr>mb_id_ref = Some (apply_replace f F_SPECIE_REV (met_id m)), mb_meta_id_ref = None,
      mb_name = met_name m\<rparr>"
| "write_member f (MGene g) =
     \<lparr>mb_id_ref = Some (apply_replace f F_GENE_REV (gene_id g)), mb_meta_id_ref = None,
      mb_name = (case gene_name g of None \<Rightarrow> [] | Some n \<Rightarrow> n)\<rparr>"

definition write_group :: "f_replace \<Rightarrow> cgroup \<Rightarrow> error + sbml_group" where
  "write_group f grp =
     (let g = setKind (grp_kind grp)
                \<lparr>sb_id = grp_id grp, sb_name = grp_name grp, sb_meta_id = None,
                 sb_sbo_term = None, sb_cvterms = [], sb_notes = [],
                 gr_kind = None, gr_members = []\<rparr>;
          g1 = sbase_notes_dict g (grp_notes grp)
      in (case sbase_annotations g1 (grp_annotation grp) of
            Inl e \<Rightarrow> Inl e
          | Inr g2 \<Rightarrow> Inr (g2\<lparr>gr_members := map (write_member f) (grp_members grp)\<rparr>)))"

text \<open>\<open>min\<close> and \<open>max\<close> of a non-empty list of numbers.\<close>

definition py_min :: "real \<Rightarrow> real list \<Rightarrow> real" where
  "py_min x xs = fold min xs x"

definition py_max :: "real \<Rightarrow> real list \<Rightarrow> real" where
  "py_max x xs = fold max xs x"

text \<open>
  The three shared bound parameters: their values are the smallest lower bound and the
  largest upper bound of the reactions of the model, the configured defaults when the
  model has no reaction, and zero.
\<close>

definition default_bound_values :: "configuration \<Rightarrow> cobra_model \<Rightarrow> real \<times> real" where
  "default_bound_values cfg cobra_model =
     (case cm_reactions cobra_model of
        [] \<Rightarrow> (LOWER_BOUND cfg, UPPER_BOUND cfg)
      | r # rs \<Rightarrow> (py_min (rxn_lower_bound r) (map rxn_lower_bound rs),
                    py_max (rxn_upper_bound r) (map rxn_upper_bound rs)))"

definition create_default_parameters ::
  "configuration \<Rightarrow> cobra_model \<Rightarrow> sbml_model \<Rightarrow> error + sbml_model" where
  "create_default_parameters cfg cobra_model model =
     (let min_value = fst (default_bound_values cfg cobra_model);
          max_value = snd (default_bound_values cfg cobra_model)
      in case create_parameter model LOWER_BOUND_ID min_value
                (Some SBO_DEFAULT_FLUX_BOUND) True False None of
           Inl e \<Rightarrow> Inl e
         | Inr m1 \<Rightarrow>
        (case create_parameter m1 UPPER_BOUND_ID max_value
                (Some SBO_DEFAULT_FLUX_BOUND) True False None of
           Inl e \<Rightarrow> Inl e
         | Inr m2 \<Rightarrow>
             create_parameter m2 ZERO_BOUND_ID 0 (Some SBO_DEFAULT_FLUX_BOUND) True False None))"

text \<open>
  The document before anything of the model is written: level 3 version 1, fbc version 2,
  the SBO term of the framework, and the annotation and notes of the stored meta
  information if the model has any (the model history that the writer fills from the
  meta information is never attached to the document).
\<close>

definition new_document :: sbml_document where
  "new_document =
     setSBOTerm SBO_FBA_FRAMEWORK
       \<lparr>sb_id = [], sb_name = [], sb_meta_id = None, sb_sbo_term = None, sb_cvterms = [],
        sb_notes = [], doc_level = 3, doc_version = 1, doc_packages = [(''fbc'', 2)],
        doc_model = None, doc_errors = []\<rparr>"

definition new_model :: "cobra_model \<Rightarrow> sbml_model" where
  "new_model cobra_model =
     \<lparr>sb_id = (case cm_id cobra_model of None \<Rightarrow> [] | Some i \<Rightarrow> i),
      sb_name = (case cm_name cobra_model of None \<Rightarrow> [] | Some n \<Rightarrow> n),
      sb_meta_id = None, sb_sbo_term = None, sb_cvterms = [], sb_notes = [],
      md_history = None, md_unit_definitions = [], md_compartments = [], md_species = [],
      md_parameters = [], md_reactions = [],
      md_fbc = Some \<lparr>fm_strict = Some True, fm_gene_products = [], fm_objectives = [],
                      fm_active_objective = []\<rparr>,
      md_groups = None\<rparr>"

definition write_meta :: "cobra_model \<Rightarrow> sbml_document \<Rightarrow> error + sbml_document" where
  "write_meta cobra_model doc =
     (case cm_sbml cobra_model of
        None \<Rightarrow> Inr doc
      | Some meta \<Rightarrow>
          (case sbase_annotations doc (meta_annotation meta) of
             Inl e \<Rightarrow> Inl e
           | Inr doc' \<Rightarrow> Inr (sbase_notes_dict doc' (meta_notes meta))))"

text \<open>\<open>_model_to_sbml\<close>.\<close>

definition model_to_sbml ::
  "configuration \<Rightarrow> libsbml \<Rightarrow> cobra_model \<Rightarrow> f_replace \<Rightarrow> bool \<Rightarrow> error + sbml_document" where
  "model_to_sbml cfg lib cobra_model f units =
     (case write_meta cobra_model new_document of
        Inl e \<Rightarrow> Inl e
      | Inr doc \<Rightarrow>
     (let flux_udef = (if units
                       then Some \<lparr>ud_id = fst UNITS_FLUX, ud_units = snd UNITS_FLUX\<rparr>
                       else None);
          model0 = (new_model cobra_model)
                     \<lparr>md_unit_definitions := (case flux_udef of None \<Rightarrow> [] | Some u \<Rightarrow> [u])\<rparr>
      in case create_default_parameters cfg cobra_model model0 of
           Inl e \<Rightarrow> Inl e
         | Inr model1 \<Rightarrow>
     (let model2 = model1\<lparr>md_compartments := map write_compartment (cm_compartments cobra_model)\<rparr>
      in case map_err (write_species f) (cm_metabolites cobra_model) of
           Inl e \<Rightarrow> Inl e
         | Inr species \<Rightarrow>
     (case map_err (write_gene f) (cm_genes cobra_model) of
        Inl e \<Rightarrow> Inl e
      | Inr gene_products \<Rightarrow>
     (case map_of SHORT_LONG_DIRECTION (cm_direction cobra_model) of
        None \<Rightarrow> Inl (KeyError (cm_direction cobra_model))
      | Some objective_type \<Rightarrow>
     (case fold_err (write_reaction cfg lib cobra_model f units flux_udef)
             (cm_reactions cobra_model) (model2\<lparr>md_species := species\<rparr>, []) of
        Inl e \<Rightarrow> Inl e
      | Inr (model3, flux_objs) \<Rightarrow>
     (let objective = \<lparr>ob_id = ''obj'', ob_type = objective_type,
                       ob_flux_objectives = flux_objs\<rparr>;
          model4 = model3\<lparr>md_fbc := Some \<lparr>fm_strict = Some True,
                                          fm_gene_products = gene_products,
                                          fm_objectives = [objective],
                                          fm_active_objective = ''obj''\<rparr>\<rparr>
      in if length (cm_groups cobra_model) > 0
         then (case map_err (write_group f) (cm_groups cobra_model) of
                 Inl e \<Rightarrow> Inl e
               | Inr groups \<Rightarrow>
                   Inr (doc\<lparr>doc_packages := doc_packages doc @ [(''groups'', 1)],
                            doc_model := Some (model4\<lparr>md_groups := Some groups\<rparr>)\<rparr>))
         else Inr (doc\<lparr>doc_model := Some model4\<rparr>))))))))"

text \<open>
  The writer raises when an annotation holds an empty list under the reserved key \<open>sbo\<close>
  (or \<open>SBO\<close>), and when the direction of the objective is neither \<open>min\<close> nor \<open>max\<close>.
  \<open>writable\<close> holds for the models in which neither is the case.
\<close>

definition sbo_given :: "annotation \<Rightarrow> bool" where
  "sbo_given annotation =
     list_all (\<lambda>(provider, v). provider \<in> set [''SBO'', ''sbo''] \<longrightarrow> standardize_value v \<noteq> [])
       annotation"

definition writable :: "cobra_model \<Rightarrow> bool" where
  "writable M =
     ((case cm_sbml M of None \<Rightarrow> True | Some meta \<Rightarrow> sbo_given (meta_annotation meta)) \<and>
      list_all (\<lambda>met. sbo_given (met_annotation met)) (cm_metabolites M) \<and>
      list_all (\<lambda>g. sbo_given (gene_annotation g)) (cm_genes M) \<and>
      list_all (\<lambda>r. sbo_given (rxn_annotation r)) (cm_reactions M) \<and>
      list_all (\<lambda>g. sbo_given (grp_annotation g)) (cm_groups M) \<and>
      cm_direction M \<in> set [''min'', ''max''])"

section \<open>Reading a document\<close>

text \<open>
  \<open>_check_required\<close>. The getters of libsbml hand over a value of the attribute's type, so
  the callers below pass \<open>Some\<close> of what the getter returned; the element is represented
  by the id that the message prints.
\<close>

definition check_required :: "string \<Rightarrow> 'a option \<Rightarrow> string \<Rightarrow> error + 'a" where
  "check_required sbase_id val attribute =
     (case val of
        None \<Rightarrow> Inl (CobraSBMLError
                  (''required attribute '' @ attribute @ '' not found in '' @ sbase_id
                   @ '' with id '' @ sbase_id))
      | Some v \<Rightarrow> Inr v)"

text \<open>
  \<open>int(text)\<close> on a note: optional surrounding whitespace, an optional sign and decimal
  digits; anything else is the \<open>ValueError\<close> that the reader passes over.
\<close>

definition digit_of :: "char \<Rightarrow> nat option" where
  "digit_of c = map_of [(CHR ''0'', 0), (CHR ''1'', 1), (CHR ''2'', 2), (CHR ''3'', 3),
                        (CHR ''4'', 4), (CHR ''5'', 5), (CHR ''6'', 6), (CHR ''7'', 7),
                        (CHR ''8'', 8), (CHR ''9'', 9)] c"

fun digits_value :: "nat \<Rightarrow> string \<Rightarrow> nat option" where
  "digits_value acc [] = Some acc"
| "digits_value acc (c # cs) =
     (case digit_of c of
        None \<Rightarrow> None
      | Some d \<Rightarrow> digits_value (10 * acc + d) cs)"

definition py_int :: "string \<Rightarrow> int option" where
  "py_int text =
     (case str_strip text of
        [] \<Rightarrow> None
      | c # cs \<Rightarrow>
          if c = CHR ''-'' then (if cs = [] then None
                                 else map_option (\<lambda>n. - int n) (digits_value 0 cs))
          else if c = CHR ''+'' then (if cs = [] then None
                                      else map_option int (digits_value 0 cs))
          else map_option int (digits_value 0 (c # cs)))"

text \<open>
  The getters of the fbc plugin of a species return zero and the empty string for an unset
  charge and formula.
\<close>

definition getCharge :: "fbc_species_plugin \<Rightarrow> int" where
  "getCharge p = (case fsp_charge p of None \<Rightarrow> 0 | Some c \<Rightarrow> c)"

definition getChemicalFormula :: "fbc_species_plugin \<Rightarrow> string" where
  "getChemicalFormula p = (case fsp_chemical_formula p of None \<Rightarrow> [] | Some t \<Rightarrow> t)"

text \<open>
  The body of the loop over the species: the metabolite and the warnings logged for it.
\<close>

definition read_species :: "f_replace \<Rightarrow> sbml_species \<Rightarrow> error + (metabolite \<times> string list)" where
  "read_species f s =
     (case check_required (sb_id s) (Some (sb_id s)) ''id'' of
        Inl e \<Rightarrow> Inl e
      | Inr sid0 \<Rightarrow>
     (let sid = apply_replace f F_SPECIE sid0;
          notes = parse_notes_dict (sb_notes s);
          al = parse_annotations_log s;
          met = \<lparr>met_id = sid, met_name = sb_name s, met_compartment = sp_compartment s,
                 met_charge = None, met_formula = None, met_notes = notes,
                 met_annotation = fst al\<rparr>
      in case sp_fbc s of
           Some s_fbc \<Rightarrow>
             Inr (met\<lparr>met_charge := Some (getCharge s_fbc),
                      met_formula := Some (getChemicalFormula s_fbc)\<rparr>, snd al)
         | None \<Rightarrow>
     (let c = (case sp_charge s of
                 Some ch \<Rightarrow>
                   (met\<lparr>met_charge := Some ch\<rparr>,
                    [''Use of charge attribute is discouraged '' @ sb_id s
                     @ '', use fbc:charge instead.''])
               | None \<Rightarrow>
                   (case map_of notes ''CHARGE'' of
                      Some text \<Rightarrow>
                        ((case py_int text of
                            Some n \<Rightarrow> met\<lparr>met_charge := Some n\<rparr>
                          | None \<Rightarrow> met),
                         [''Use of CHARGE note is discouraged '' @ sb_id s
                          @ '', use fbc:charge instead.''])
                    | None \<Rightarrow> (met, [])));
          d = (case map_of notes ''FORMULA'' of
                 Some text \<Rightarrow>
                   ((fst c)\<lparr>met_formula := Some text\<rparr>,
                    [''Use of FORMULA note is discouraged '' @ sb_id s
                     @ '', use fbc:chemicalFormula instead.''])
               | None \<Rightarrow> (fst c, []))
      in Inr (fst d, snd al @ snd c @ snd d))))"

text \<open>
  The ids collected in \<open>boundary_ids\<close>: the id of every species whose boundary condition is
  set, as \<open>s.getId()\<close> returns it.
\<close>

definition boundary_ids_of :: "sbml_species list \<Rightarrow> string list" where
  "boundary_ids_of species = map sb_id (filter sp_boundary_condition species)"

definition read_gene_product :: "f_replace \<Rightarrow> gene_product \<Rightarrow> gene \<times> string list" where
  "read_gene_product f gp =
     (let gid = apply_replace f F_GENE (sb_id gp);
          al = parse_annotations_log gp
      in (\<lparr>gene_id = gid, gene_name = Some (sb_name gp),
           gene_notes = parse_notes_dict (sb_notes gp), gene_annotation = fst al\<rparr>, snd al))"

text \<open>The gene association that a reaction carries in its notes.\<close>

definition notes_gpr :: "notes_dict \<Rightarrow> string" where
  "notes_gpr notes =
     (case map_of notes ''GENE ASSOCIATION'' of
        Some g \<Rightarrow> g
      | None \<Rightarrow> (case map_of notes ''GENE_ASSOCIATION'' of
                    Some g \<Rightarrow> g
                  | None \<Rightarrow> []))"

text \<open>
  Without the fbc plugin the genes are created from the notes of the reactions: the ids
  named in the association of one reaction are added to the genes found so far.
\<close>

definition gpr_gene_ids :: "string \<Rightarrow> string list" where
  "gpr_gene_ids gpr =
     map str_strip
       (str_split CHR '';''
          (str_replace ''and'' '';''
             (str_replace ''or'' '';''
                (str_replace '')'' '';''
                   (str_replace ''('' '';'' gpr)))))"

definition add_missing_gene :: "f_replace \<Rightarrow> gene list \<Rightarrow> string \<Rightarrow> gene list" where
  "add_missing_gene f genes gid0 =
     (let gid = apply_replace f F_GENE gid0 in
      if gid \<notin> set (map gene_id genes)
      then genes @ [\<lparr>gene_id = gid, gene_name = Some gid, gene_notes = [],
                      gene_annotation = []\<rparr>]
      else genes)"

definition fallback_genes :: "f_replace \<Rightarrow> gene list \<Rightarrow> sbml_reaction \<Rightarrow> gene list" where
  "fallback_genes f genes reaction =
     (let gpr = notes_gpr (parse_notes_dict (sb_notes reaction)) in
      if length gpr > 0
      then foldl (add_missing_gene f) genes (gpr_gene_ids gpr)
      else genes)"

text \<open>\<open>process_association\<close>: the association tree as a string.\<close>

fun process_association :: "f_replace \<Rightarrow> fbc_association \<Rightarrow> string" where
  "process_association f (FbcOr cs) =
     str_join '' '' [''('', str_join '' or '' (map (process_association f) cs), '')'']"
| "process_association f (FbcAnd cs) =
     str_join '' '' [''('', str_join '' and '' (map (process_association f) cs), '')'']"
| "process_association f (GeneProductRef gid) = apply_replace f F_GENE gid"

text \<open>
  Flux bounds of a reaction: from the parameters that the fbc plugin names, else from the
  local parameters of the kinetic law, else an error. A parameter that the model does not
  have is \<open>None\<close> in Python, and asking it for its attributes raises.
\<close>

definition getParameter :: "sbml_model \<Rightarrow> string \<Rightarrow> sbml_parameter option" where
  "getParameter model pid = find (\<lambda>p. sb_id p = pid) (md_parameters model)"

definition getLocalParameter :: "kinetic_law \<Rightarrow> string \<Rightarrow> local_parameter option" where
  "getLocalParameter klaw pid = find (\<lambda>p. lp_id p = pid) (kl_parameters klaw)"

definition constant_bound :: "sbml_parameter option \<Rightarrow> string \<Rightarrow> string \<Rightarrow> error + real" where
  "constant_bound p pid rid =
     (case p of
        None \<Rightarrow> Inl (AttributeError ''NoneType object has no attribute getConstant'')
      | Some q \<Rightarrow>
          if p_constant q then Inr (p_value q)
          else Inl (CobraSBMLError (''No constant bound '' @ pid @ '' for reaction '' @ rid)))"

definition read_bounds :: "sbml_model \<Rightarrow> sbml_reaction \<Rightarrow> error + (real \<times> real \<times> string list)" where
  "read_bounds model r =
     (case rx_fbc r of
        Some r_fbc \<Rightarrow>
          (case check_required (sb_id r) (Some (frp_lower_flux_bound r_fbc)) ''lowerFluxBound'' of
             Inl e \<Rightarrow> Inl e
           | Inr lb_id \<Rightarrow>
          (case check_required (sb_id r) (Some (frp_upper_flux_bound r_fbc)) ''upperFluxBound'' of
             Inl e \<Rightarrow> Inl e
           | Inr ub_id \<Rightarrow>
          (case constant_bound (getParameter model lb_id) lb_id (sb_id r) of
             Inl e \<Rightarrow> Inl e
           | Inr lb \<Rightarrow>
          (case constant_bound (getParameter model ub_id) ub_id (sb_id r) of
             Inl e \<Rightarrow> Inl e
           | Inr ub \<Rightarrow> Inr (lb, ub, [])))))
      | None \<Rightarrow>
          (case rx_kinetic_law r of
             Some klaw \<Rightarrow>
               (case getLocalParameter klaw ''LOWER_BOUND'' of
                  None \<Rightarrow> Inl (CobraSBMLError (''Missing flux bounds on reaction '' @ sb_id r))
                | Some p_lb \<Rightarrow>
               (case getLocalParameter klaw ''UPPER_BOUND'' of
                  None \<Rightarrow> Inl (CobraSBMLError (''Missing flux bounds on reaction '' @ sb_id r))
                | Some p_ub \<Rightarrow>
                    Inr (lp_value p_lb, lp_value p_ub,
                         [''Encoding LOWER_BOUND and UPPER_BOUND in KineticLaw is discouraged ''
                          @ sb_id r @ '', use fbc:fluxBounds instead.''])))
           | None \<Rightarrow> Inl (CobraSBMLError (''No flux bounds on reaction '' @ sb_id r))))"

text \<open>
  The stoichiometry dictionary (a \<open>defaultdict\<close> with default zero): reactants subtract,
  products add. \<open>number\<close> is the numeric type chosen by the caller; it may reject a value
  with a \<open>ValueError\<close>.
\<close>

definition float_number :: "real \<Rightarrow> real option" where
  "float_number x = Some x"

definition add_reference ::
  "f_replace \<Rightarrow> (real \<Rightarrow> real option) \<Rightarrow> string \<Rightarrow> real \<Rightarrow> species_reference
   \<Rightarrow> (string \<times> real) list \<Rightarrow> error + (string \<times> real) list" where
  "add_reference f number rid sign sref stoichiometry =
     (let sid = apply_replace f F_SPECIE (sr_species sref) in
      case check_required rid (Some (sr_stoichiometry sref)) ''stoichiometry'' of
        Inl e \<Rightarrow> Inl e
      | Inr v \<Rightarrow>
          (case number v of
             None \<Rightarrow> Inl (ValueError ''number'')
           | Some x \<Rightarrow>
               Inr (AList.update sid
                      ((case map_of stoichiometry sid of None \<Rightarrow> 0 | Some old \<Rightarrow> old)
                       + sign * x)
                      stoichiometry)))"

definition read_stoichiometry ::
  "f_replace \<Rightarrow> (real \<Rightarrow> real option) \<Rightarrow> sbml_reaction \<Rightarrow> error + (string \<times> real) list" where
  "read_stoichiometry f number r =
     (case fold_err (add_reference f number (sb_id r) (- 1)) (rx_reactants r) [] of
        Inl e \<Rightarrow> Inl e
      | Inr st \<Rightarrow> fold_err (add_reference f number (sb_id r) 1) (rx_products r) st)"

text \<open>
  Modelled from the spec: a \<open>Reaction\<close> of \<open>cobra.core\<close> carries the attributes of the data
  model, its id in the attribute \<open>id\<close>; it has no method \<open>getId\<close>, which is an accessor of
  the elements of a document.
\<close>

text \<open>
  The entries of the stoichiometry are resolved to metabolites of the model. For an id
  found in \<open>boundary_ids\<close>, and for an id that no metabolite has, the loop builds the text
  of a warning from \<open>reaction.getId()\<close>, where \<open>reaction\<close> is the reaction of the model
  being built: building the text raises \<open>AttributeError\<close> before anything is logged or
  skipped. The other entries are kept with their coefficient.
\<close>

definition resolve_entry ::
  "string list \<Rightarrow> metabolite list \<Rightarrow> string \<times> real \<Rightarrow> (string \<times> real) list
   \<Rightarrow> error + (string \<times> real) list" where
  "resolve_entry boundary_ids metabolites entry st =
     (let met_id = fst entry in
      if met_id \<in> set boundary_ids
      then Inl (AttributeError ''Reaction object has no attribute getId'')
      else (case get_by_id metabolite.met_id metabolites met_id of
              Inl e \<Rightarrow> Inl (AttributeError ''Reaction object has no attribute getId'')
            | Inr metabolite \<Rightarrow> Inr (st @ [(metabolite.met_id metabolite, snd entry)])))"

definition object_stoichiometry ::
  "string list \<Rightarrow> metabolite list \<Rightarrow> (string \<times> real) list
   \<Rightarrow> error + (string \<times> real) list" where
  "object_stoichiometry boundary_ids metabolites stoichiometry =
     fold_err (resolve_entry boundary_ids metabolites) stoichiometry []"

text \<open>The gene reaction rule of a reaction and the warnings logged for it.\<close>

definition read_gpr :: "f_replace \<Rightarrow> sbml_reaction \<Rightarrow> notes_dict \<Rightarrow> error + (string \<times> string list)" where
  "read_gpr f r notes =
     (case (case rx_fbc r of
              Some r_fbc \<Rightarrow>
                (case frp_gpa r_fbc of
                   None \<Rightarrow> Inr ([], [])
                 | Some None \<Rightarrow>
                     Inl (AttributeError ''NoneType object has no attribute isFbcOr'')
                 | Some (Some association) \<Rightarrow> Inr (process_association f association, []))
            | None \<Rightarrow>
                (let gpr = notes_gpr notes in
                 if length gpr > 0
                 then Inr ((case f F_GENE of
                              None \<Rightarrow> gpr
                            | Some g \<Rightarrow> str_join '' '' (map g (str_split CHR '' '' gpr))),
                           [''Use of GENE ASSOCIATION note is discouraged '' @ sb_id r
                            @ '', use fbc:gpr instead.''])
                 else Inr (gpr, []))) of
        Inl e \<Rightarrow> Inl e
      | Inr (gpr, warnings) \<Rightarrow>
          Inr (if startswith gpr ''('' \<and> endswith gpr '')''
               then str_strip (butlast (tl gpr)) else gpr, warnings))"

text \<open>The body of the loop over the reactions.\<close>

definition read_reaction ::
  "f_replace \<Rightarrow> (real \<Rightarrow> real option) \<Rightarrow> sbml_model \<Rightarrow> string list \<Rightarrow> metabolite list
   \<Rightarrow> sbml_reaction \<Rightarrow> error + (reaction \<times> string list)" where
  "read_reaction f number model boundary_ids metabolites r =
     (case check_required (sb_id r) (Some (sb_id r)) ''id'' of
        Inl e \<Rightarrow> Inl e
      | Inr rid0 \<Rightarrow>
     (let rid = apply_replace f F_REACTION rid0;
          al = parse_annotations_log r;
          notes = parse_notes_dict (sb_notes r)
      in case read_bounds model r of
           Inl e \<Rightarrow> Inl e
         | Inr (lb, ub, bound_warnings) \<Rightarrow>
     (case read_stoichiometry f number r of
        Inl e \<Rightarrow> Inl e
      | Inr stoichiometry \<Rightarrow>
     (case object_stoichiometry boundary_ids metabolites stoichiometry of
        Inl e \<Rightarrow> Inl e
      | Inr os \<Rightarrow>
     (case read_gpr f r notes of
        Inl e \<Rightarrow> Inl e
      | Inr (gpr, gpr_warnings) \<Rightarrow>
          Inr (\<lparr>rxn_id = rid, rxn_name = sb_name r, rxn_lower_bound = lb,
                rxn_upper_bound = ub, rxn_metabolites = os,
                rxn_gene_reaction_rule = gpr, rxn_notes = notes,
                rxn_annotation = fst al\<rparr>,
               snd al @ bound_warnings @ gpr_warnings))))))"

text \<open>A loop that collects the results and the warnings of its body.\<close>

fun map_log :: "('a \<Rightarrow> error + ('b \<times> string list)) \<Rightarrow> 'a list \<Rightarrow> error + ('b list \<times> string list)" where
  "map_log g [] = Inr ([], [])"
| "map_log g (x # xs) =
     (case g x of
        Inl e \<Rightarrow> Inl e
      | Inr (y, w) \<Rightarrow>
          (case map_log g xs of
             Inl e \<Rightarrow> Inl e
           | Inr (ys, ws) \<Rightarrow> Inr (y # ys, w @ ws)))"

text \<open>
  The objective with the fbc plugin: the coefficients, the direction and the warnings. The
  last component tells whether the branch that binds the local variable \<open>obj\<close> (to the
  active objective) was taken; the loop over the group members reads that variable.
\<close>

definition add_flux_objective ::
  "f_replace \<Rightarrow> (real \<Rightarrow> real option) \<Rightarrow> reaction list \<Rightarrow> flux_objective
   \<Rightarrow> (string \<times> real) list \<times> string list \<Rightarrow> error + ((string \<times> real) list \<times> string list)" where
  "add_flux_objective f number reactions flux_obj st =
     (let rid = apply_replace f F_REACTION (fo_reaction flux_obj) in
      case get_by_id rxn_id reactions rid of
        Inl e \<Rightarrow> Inl (CobraSBMLError (''Objective reaction '' @ rid @ '' not found''))
      | Inr objective_reaction \<Rightarrow>
          (case number (fo_coefficient flux_obj) of
             None \<Rightarrow> Inr (fst st, snd st @ [''ValueError''])
           | Some c \<Rightarrow> Inr (AList.update (rxn_id objective_reaction) c (fst st), snd st)))"

definition read_fbc_objective ::
  "f_replace \<Rightarrow> (real \<Rightarrow> real option) \<Rightarrow> fbc_model_plugin \<Rightarrow> reaction list
   \<Rightarrow> error + ((string \<times> real) list \<times> string \<times> string list \<times> bool)" where
  "read_fbc_objective f number model_fbc reactions =
     (if length (fm_objectives model_fbc) = 0
      then Inr ([], ''max'', [''No objective in listOfObjectives''], False)
      else if fm_active_objective model_fbc = []
      then Inr ([], ''max'', [''No active objective in listOfObjectives''], False)
      else (case find (\<lambda>ob. ob_id ob = fm_active_objective model_fbc) (fm_objectives model_fbc) of
              None \<Rightarrow> Inl (AttributeError ''NoneType object has no attribute getType'')
            | Some ob \<Rightarrow>
                (case map_of LONG_SHORT_DIRECTION (ob_type ob) of
                   None \<Rightarrow> Inl (KeyError (ob_type ob))
                 | Some obj_direction \<Rightarrow>
                     (case fold_err (add_flux_objective f number reactions)
                             (ob_flux_objectives ob) ([], []) of
                        Inl e \<Rightarrow> Inl e
                      | Inr (coefficients, warnings) \<Rightarrow>
                          Inr (coefficients, obj_direction, warnings, True)))))"

text \<open>
  The objective of a document without the fbc plugin, from the kinetic laws. The loop
  variable is \<open>reaction\<close>; the kinetic law is taken from \<open>r\<close>, the variable of the loop over
  the reactions that ran before, which holds the last reaction of the model.
\<close>

definition add_legacy_objective ::
  "f_replace \<Rightarrow> (real \<Rightarrow> real option) \<Rightarrow> reaction list \<Rightarrow> sbml_reaction \<Rightarrow> sbml_reaction
   \<Rightarrow> (string \<times> real) list \<times> string list \<Rightarrow> error + ((string \<times> real) list \<times> string list)" where
  "add_legacy_objective f number reactions r reaction st =
     (if rx_kinetic_law reaction \<noteq> None
      then (case rx_kinetic_law r of
              None \<Rightarrow> Inl (AttributeError ''NoneType object has no attribute getParameter'')
            | Some klaw \<Rightarrow>
                (case getLocalParameter klaw ''OBJECTIVE_COEFFICIENT'' of
                   None \<Rightarrow> Inr st
                 | Some p_oc \<Rightarrow>
                     (let rid = apply_replace f F_REACTION (sb_id reaction) in
                      case get_by_id rxn_id reactions rid of
                        Inl e \<Rightarrow> Inl (CobraSBMLError (''Objective reaction '' @ rid @ '' not found''))
                      | Inr objective_reaction \<Rightarrow>
                          (let warning = ''Encoding OBJECTIVE_COEFFICIENT in KineticLaw is discouraged ''
                                         @ sb_id reaction @ '', use fbc:fluxObjective instead.''
                           in case number (lp_value p_oc) of
                                None \<Rightarrow> Inr (fst st, snd st @ [''ValueError'', warning])
                              | Some c \<Rightarrow>
                                  Inr (AList.update (rxn_id objective_reaction) c (fst st),
                                       snd st @ [warning])))))
      else Inr st)"

definition read_legacy_objective ::
  "f_replace \<Rightarrow> (real \<Rightarrow> real option) \<Rightarrow> sbml_model \<Rightarrow> reaction list
   \<Rightarrow> error + ((string \<times> real) list \<times> string list)" where
  "read_legacy_objective f number model reactions =
     (case md_reactions model of
        [] \<Rightarrow> Inr ([], [])
      | first # others \<Rightarrow>
          fold_err (add_legacy_objective f number reactions (last (first # others)))
            (first # others) ([], []))"

text \<open>
  Groups. \<open>doc.getElementBySId\<close> and \<open>doc.getElementByMetaId\<close> find an element of the
  document; what the reader asks of it is its type code and its id.
\<close>

datatype element =
    ElSpecies sbml_species
  | ElReaction sbml_reaction
  | ElGeneProduct gene_product
  | ElOther string

definition elements_of :: "sbml_model \<Rightarrow> (string \<times> string option \<times> element) list" where
  "elements_of model =
     [(sb_id model, sb_meta_id model, ElOther ''model'')]
     @ map (\<lambda>c. (sb_id c, sb_meta_id c, ElOther ''compartment'')) (md_compartments model)
     @ map (\<lambda>x. (sb_id x, sb_meta_id x, ElSpecies x)) (md_species model)
     @ map (\<lambda>q. (sb_id q, sb_meta_id q, ElOther ''parameter'')) (md_parameters model)
     @ map (\<lambda>x. (sb_id x, sb_meta_id x, ElReaction x)) (md_reactions model)
     @ (case md_fbc model of
          None \<Rightarrow> []
        | Some model_fbc \<Rightarrow>
            map (\<lambda>x. (sb_id x, sb_meta_id x, ElGeneProduct x)) (fm_gene_products model_fbc)
            @ map (\<lambda>ob. (ob_id ob, None, ElOther ''objective'')) (fm_objectives model_fbc))
     @ (case md_groups model of
          None \<Rightarrow> []
        | Some groups \<Rightarrow> map (\<lambda>g. (sb_id g, sb_meta_id g, ElOther ''group'')) groups)"

definition getElementBySId :: "sbml_model \<Rightarrow> string \<Rightarrow> element option" where
  "getElementBySId model sid =
     (if sid = [] then None
      else map_option (\<lambda>x. snd (snd x)) (find (\<lambda>x. fst x = sid) (elements_of model)))"

definition getElementByMetaId :: "sbml_model \<Rightarrow> string \<Rightarrow> element option" where
  "getElementByMetaId model mid =
     (if mid = [] then None
      else map_option (\<lambda>x. snd (snd x)) (find (\<lambda>x. fst (snd x) = Some mid) (elements_of model)))"

text \<open>
  The body of the loop over the members of a group. The state holds the local variable
  \<open>obj\<close> (\<open>None\<close> while it is unbound, \<open>Some None\<close> when it holds Python's \<open>None\<close>), the
  members found so far and the warnings.
\<close>

definition read_member ::
  "f_replace \<Rightarrow> sbml_model \<Rightarrow> cobra_model \<Rightarrow> sbml_member
   \<Rightarrow> element option option \<times> member list \<times> string list
   \<Rightarrow> error + (element option option \<times> member list \<times> string list)" where
  "read_member f model cobra_model m st =
     (let members = fst (snd st); warnings = snd (snd st);
          obj = (case mb_id_ref m of
                   Some idref \<Rightarrow> Some (getElementBySId model idref)
                 | None \<Rightarrow>
                     (case mb_meta_id_ref m of
                        Some metaref \<Rightarrow> Some (getElementByMetaId model metaref)
                      | None \<Rightarrow> fst st))
      in case obj of
           None \<Rightarrow> Inl (NameError ''obj'')
         | Some None \<Rightarrow> Inl (AttributeError ''NoneType object has no attribute getTypeCode'')
         | Some (Some (ElSpecies x)) \<Rightarrow>
             (case get_by_id met_id (cm_metabolites cobra_model)
                     (apply_replace f F_SPECIE (sb_id x)) of
                Inl e \<Rightarrow> Inl e
              | Inr member \<Rightarrow> Inr (obj, members @ [MMetabolite member], warnings))
         | Some (Some (ElReaction x)) \<Rightarrow>
             (case get_by_id rxn_id (cm_reactions cobra_model)
                     (apply_replace f F_REACTION (sb_id x)) of
                Inl e \<Rightarrow> Inl e
              | Inr member \<Rightarrow> Inr (obj, members @ [MReaction member], warnings))
         | Some (Some (ElGeneProduct x)) \<Rightarrow>
             (case get_by_id gene_id (cm_genes cobra_model)
                     (apply_replace f F_GENE (sb_id x)) of
                Inl e \<Rightarrow> Inl e
              | Inr member \<Rightarrow> Inr (obj, members @ [MGene member], warnings))
         | Some (Some (ElOther typecode)) \<Rightarrow>
             Inr (obj, members,
                  warnings @ [''Member could not be added to group. unsupported type code: ''
                              @ typecode]))"

definition read_group ::
  "f_replace \<Rightarrow> sbml_model \<Rightarrow> cobra_model \<Rightarrow> sbml_group
   \<Rightarrow> element option option \<times> cgroup list \<times> string list
   \<Rightarrow> error + (element option option \<times> cgroup list \<times> string list)" where
  "read_group f model cobra_model g st =
     (let al = parse_annotations_log g in
      case fold_err (read_member f model cobra_model) (gr_members g)
             (fst st, [], snd (snd st) @ snd al) of
        Inl e \<Rightarrow> Inl e
      | Inr (obj, members, warnings) \<Rightarrow>
          Inr (obj,
               fst (snd st) @
                 [\<lparr>grp_id = sb_id g, grp_name = sb_name g,
                   grp_kind = (case gr_kind g of None \<Rightarrow> ''collection'' | Some k \<Rightarrow> k),
                   grp_members = members, grp_notes = parse_notes_dict (sb_notes g),
                   grp_annotation = fst al\<rparr>],
               warnings))"

text \<open>
  Without the groups plugin the groups come from the \<open>SUBSYSTEM\<close> notes of the reactions:
  one group for each subsystem, in the order in which the subsystems first occur.
\<close>

definition add_to_subsystem ::
  "(string \<times> reaction list) list \<Rightarrow> reaction \<Rightarrow> (string \<times> reaction list) list" where
  "add_to_subsystem groups_dict reaction =
     (case map_of (rxn_notes reaction) ''SUBSYSTEM'' of
        None \<Rightarrow> groups_dict
      | Some g_name \<Rightarrow>
          (case map_of groups_dict g_name of
             Some members \<Rightarrow> AList.update g_name (members @ [reaction]) groups_dict
           | None \<Rightarrow> AList.update g_name [reaction] groups_dict))"

definition subsystem_groups :: "reaction list \<Rightarrow> cgroup list" where
  "subsystem_groups reactions =
     map (\<lambda>(gid, members).
            \<lparr>grp_id = gid, grp_name = gid, grp_kind = ''collection'',
             grp_members = map MReaction members, grp_notes = [], grp_annotation = []\<rparr>)
         (foldl add_to_subsystem [] reactions)"

text \<open>
  The start of \<open>_sbml_to_model\<close>: the warnings about the fbc package and the conversion of
  a version 1 document, which rewrites the model in place.
\<close>

definition check_fbc ::
  "libsbml \<Rightarrow> sbml_document \<Rightarrow> sbml_model \<Rightarrow> error + (sbml_model \<times> string list)" where
  "check_fbc lib doc model =
     (case md_fbc model of
        None \<Rightarrow> Inr (model, [''Model does not contain FBC information.''])
      | Some model_fbc \<Rightarrow>
          (let strict_warning = (if fm_strict model_fbc = None
                                 then [''Loading SBML model without fbc:strict=true''] else [])
           in case map_of (doc_packages doc) ''fbc'' of
                None \<Rightarrow> Inl (AttributeError ''NoneType object has no attribute getPackageVersion'')
              | Some fbc_version \<Rightarrow>
                  if fbc_version = 1
                  then (case convert_fbc_v1_to_v2 lib model of
                          None \<Rightarrow> Inl (Exception ''Conversion of SBML fbc v1 to fbc v2 failed'')
                        | Some converted \<Rightarrow>
                            Inr (converted, strict_warning @
                                   [''Loading SBML with fbc-v1 (models should be encoded using fbc-v2)'']))
                  else Inr (model, strict_warning)))"

fun str_nat :: "nat \<Rightarrow> string" where
  "str_nat n =
     (if n < 10 then [''0123456789'' ! n]
      else str_nat (n div 10) @ [''0123456789'' ! (n mod 10)])"

declare str_nat.simps [simp del]

text \<open>The meta information stored with the model, and the warnings about packages.\<close>

definition read_meta :: "sbml_document \<Rightarrow> sbml_model \<Rightarrow> sbml_meta \<times> string list" where
  "read_meta doc model =
     (let al = parse_annotations_log doc;
          info = ''<'' @ sb_id model @ ''> SBML L'' @ str_nat (doc_level doc)
                 @ ''V'' @ str_nat (doc_version doc)
                 @ concat (map (\<lambda>(key, v). '', '' @ key @ ''-v'' @ str_nat v) (doc_packages doc))
      in (\<lparr>meta_model_id = sb_id model, meta_level = doc_level doc,
           meta_version = doc_version doc,
           meta_packages = foldl (\<lambda>d (key, v). AList.update key v d) [] (doc_packages doc),
           meta_creators = (case md_history model of
                              None \<Rightarrow> []
                            | Some history \<Rightarrow> mh_creators history),
           meta_created = (case md_history model of
                             None \<Rightarrow> None
                           | Some history \<Rightarrow> mh_created_date history),
           meta_notes = parse_notes_dict (sb_notes doc),
           meta_annotation = fst al, meta_info = info\<rparr>,
          snd al @
          map (\<lambda>(key, v). ''SBML package '' @ key
                           @ '' not supported by cobrapy,information is not parsed'')
              (filter (\<lambda>(key, v). key \<notin> set [''fbc'', ''groups'']) (doc_packages doc))))"

text \<open>
  \<open>_sbml_to_model\<close>: the model and the warnings logged on the way, or the exception raised.
\<close>

definition sbml_to_model ::
  "libsbml \<Rightarrow> sbml_document \<Rightarrow> (real \<Rightarrow> real option) \<Rightarrow> f_replace
   \<Rightarrow> error + (cobra_model \<times> string list)" where
  "sbml_to_model lib doc number f =
     (case doc_model doc of
        None \<Rightarrow> Inl (CobraSBMLError ''No SBML model detected in file.'')
      | Some model0 \<Rightarrow>
     (case check_fbc lib doc model0 of
        Inl e \<Rightarrow> Inl e
      | Inr (model, fbc_warnings) \<Rightarrow>
     (let model_fbc = (case md_fbc model0 of
                         None \<Rightarrow> None
                       | Some plugin0 \<Rightarrow>
                           Some (case md_fbc model of None \<Rightarrow> plugin0 | Some plugin1 \<Rightarrow> plugin1));
          meta = read_meta doc model;
          al = parse_annotations_log model;
          cobra_model0 = (Model (sb_id model))
            \<lparr>cm_name := Some (sb_name model), cm_sbml := Some (fst meta),
             cm_notes := parse_notes_dict (sb_notes model), cm_annotation := fst al,
             cm_compartments :=
               foldl (\<lambda>d c. AList.update (sb_id c) (sb_name c) d) [] (md_compartments model)\<rparr>
      in case map_log (read_species f) (md_species model) of
           Inl e \<Rightarrow> Inl e
         | Inr (metabolites, species_warnings) \<Rightarrow>
     (let boundary_ids = boundary_ids_of (md_species model);
          cobra_model1 = cobra_model0\<lparr>cm_metabolites := metabolites\<rparr>;
          gl = (case model_fbc of
                  Some plugin \<Rightarrow>
                    (let gs = map (read_gene_product f) (fm_gene_products plugin)
                     in (map fst gs, concat (map snd gs)))
                | None \<Rightarrow> (foldl (fallback_genes f) [] (md_reactions model), []));
          cobra_model2 = cobra_model1\<lparr>cm_genes := fst gl\<rparr>
      in case map_log (read_reaction f number model boundary_ids metabolites)
                (md_reactions model) of
           Inl e \<Rightarrow> Inl e
         | Inr (reactions, reaction_warnings) \<Rightarrow>
     (let cobra_model3 = cobra_model2\<lparr>cm_reactions := reactions\<rparr>
      in case (case model_fbc of
                 Some plugin \<Rightarrow> read_fbc_objective f number plugin reactions
               | None \<Rightarrow>
                   (case read_legacy_objective f number model reactions of
                      Inl e \<Rightarrow> Inl e
                    | Inr (coefficients, warnings) \<Rightarrow>
                        Inr (coefficients, ''max'', warnings, False))) of
           Inl e \<Rightarrow> Inl e
         | Inr (coefficients, obj_direction, objective_warnings, obj_bound) \<Rightarrow>
     (let cobra_model4 = cobra_model3\<lparr>cm_objective := coefficients,
                                        cm_direction := obj_direction\<rparr>;
          warnings = fbc_warnings @ snd meta @ snd al @ species_warnings @ snd gl
                     @ reaction_warnings @ objective_warnings
      in case md_groups model of
           Some model_groups \<Rightarrow>
             (case fold_err (read_group f model cobra_model4) model_groups
                     (if obj_bound then Some (Some (ElOther ''objective'')) else None,
                      [], warnings) of
                Inl e \<Rightarrow> Inl e
              | Inr (obj, groups, warnings') \<Rightarrow>
                  Inr (cobra_model4\<lparr>cm_groups := groups\<rparr>, warnings'))
         | None \<Rightarrow>
             Inr (cobra_model4\<lparr>cm_groups := subsystem_groups reactions\<rparr>, warnings)))))))"

section \<open>Validation\<close>

text \<open>
  \<open>_get_doc_from_filename\<close>: a path or a text, or a handle that can be read, is handed to
  libsbml, which always returns a document (with its errors logged and without a model
  when it could not make one); any other argument is refused.
\<close>

datatype source = SourceString sbml_document | SourceHandle sbml_document | SourceOther

fun get_doc_from_filename :: "source \<Rightarrow> error + sbml_document" where
  "get_doc_from_filename (SourceString doc) = Inr doc"
| "get_doc_from_filename (SourceHandle doc) = Inr doc"
| "get_doc_from_filename SourceOther =
     Inl (CobraSBMLError ''Input format for filename is not supported.'')"

type_synonym errors = "(string \<times> string list) list"

text \<open>The local function \<open>err\<close>: \<open>errors[group].append(err_msg)\<close>.\<close>

definition err :: "errors \<Rightarrow> string \<Rightarrow> string \<Rightarrow> error + errors" where
  "err errors err_msg grp =
     (case map_of errors grp of
        None \<Rightarrow> Inl (KeyError grp)
      | Some msgs \<Rightarrow> Inr (AList.update grp (msgs @ [err_msg]) errors))"

definition error_string :: "sbml_error \<Rightarrow> string" where
  "error_string e =
     (let package = (if er_package e = [] then ''core'' else er_package e) in
      ''ENone: '' @ er_category e @ '' ('' @ package @ '', L'' @ str_nat (er_line e)
      @ '', code)  '' @ [CHR 0x0A] @ replicate 60 CHR ''-'' @ [CHR 0x0A]
      @ ''['' @ er_severity_string e @ ''] '' @ er_short_message e @ [CHR 0x0A]
      @ er_message e @ [CHR 0x0A])"

definition log_sbml_error :: "sbml_error \<Rightarrow> errors \<Rightarrow> error + errors" where
  "log_sbml_error e errors =
     (case er_severity e of
        SEV_FATAL \<Rightarrow> err errors (error_string e) ''SBML_FATAL''
      | SEV_ERROR \<Rightarrow> err errors (error_string e) ''SBML_ERROR''
      | SEV_SCHEMA_ERROR \<Rightarrow> err errors (error_string e) ''SBML_SCHEMA_ERROR''
      | SEV_WARNING \<Rightarrow> err errors (error_string e) ''SBML_WARNING''
      | SEV_INFO \<Rightarrow> Inr errors)"

definition initial_errors :: "bool \<Rightarrow> errors" where
  "initial_errors use_libsbml =
     map (\<lambda>key. (key, [])) [''validator'', ''warnings'', ''other'', ''SBML errors'']
     @ (if use_libsbml
        then map (\<lambda>key. (key, []))
               [''SBML_FATAL'', ''SBML ERROR'', ''SBML_SCHEMA_ERROR'', ''SBML_WARNING'']
        else [])"

text \<open>
  What the validator takes from the rest of cobra: the check of compartments and formulas
  of the metabolites of a model, and the Python warnings (of the \<open>warnings\<close> module, not the
  log of this module) that were recorded while the model was built.
\<close>

record collaborators =
  check_metabolite_compartment_formula :: "cobra_model \<Rightarrow> string list"
  recorded_warnings :: "sbml_document \<Rightarrow> string list"

text \<open>
  The errors of a document after the checks that the validator asks libsbml to run.
\<close>

definition checked_errors :: "libsbml \<Rightarrow> sbml_document \<Rightarrow> bool \<Rightarrow> bool \<Rightarrow> bool \<Rightarrow> sbml_error list" where
  "checked_errors lib doc internal_consistency check_units_consistency check_modeling_practice =
     doc_errors doc
     @ (if internal_consistency then checkInternalConsistency lib doc else [])
     @ checkConsistency lib check_units_consistency check_modeling_practice doc"

text \<open>
  \<open>validate_sbml_model\<close>: the exception it raises, or the model (if one could be built) with
  the errors.
\<close>

definition validate_sbml_model ::
  "libsbml \<Rightarrow> collaborators \<Rightarrow> source \<Rightarrow> bool \<Rightarrow> bool \<Rightarrow> bool \<Rightarrow> bool \<Rightarrow> bool
   \<Rightarrow> error + (cobra_model option \<times> errors)" where
  "validate_sbml_model lib env filename use_libsbml check_model internal_consistency
       check_units_consistency check_modeling_practice =
     (case get_doc_from_filename filename of
        Inl e \<Rightarrow> Inl e
      | Inr doc \<Rightarrow>
     (case doc_model doc of
        None \<Rightarrow> Inl (CobraSBMLError ''No SBML model detected in file.'')
      | Some model \<Rightarrow>
     (case (if use_libsbml
            then fold_err log_sbml_error
                   (checked_errors lib doc internal_consistency check_units_consistency
                      check_modeling_practice)
                   (initial_errors use_libsbml)
            else Inr (initial_errors use_libsbml)) of
        Inl e \<Rightarrow> Inl e
      | Inr errors \<Rightarrow>
     (case sbml_to_model lib doc float_number Map.empty of
        Inl (CobraSBMLError msg) \<Rightarrow>
          (case err errors msg ''SBML errors'' of
             Inl e \<Rightarrow> Inl e
           | Inr errors' \<Rightarrow> Inr (None, errors'))
      | Inl e \<Rightarrow>
          (case err errors (error_message e) ''other'' of
             Inl e' \<Rightarrow> Inl e'
           | Inr errors' \<Rightarrow> Inr (None, errors'))
      | Inr (cobra_model, logged) \<Rightarrow>
          (let errors1 = AList.update ''warnings''
                           ((case map_of errors ''warnings'' of None \<Rightarrow> [] | Some ws \<Rightarrow> ws)
                            @ recorded_warnings env doc) errors;
               errors2 = (if check_model
                          then AList.update ''validator''
                                 ((case map_of errors1 ''validator'' of None \<Rightarrow> [] | Some vs \<Rightarrow> vs)
                                  @ check_metabolite_compartment_formula env cobra_model) errors1
                          else errors1)
           in Inr (Some cobra_model, errors2))))))"

text \<open>
  \<open>read_sbml_model\<close>: any exception is replaced by a \<open>CobraSBMLError\<close> that points to the
  validator.
\<close>

definition read_sbml_model ::
  "libsbml \<Rightarrow> source \<Rightarrow> (real \<Rightarrow> real option) \<Rightarrow> f_replace
   \<Rightarrow> error + (cobra_model \<times> string list)" where
  "read_sbml_model lib filename number f =
     (case (case get_doc_from_filename filename of
              Inl e \<Rightarrow> Inl e
            | Inr doc \<Rightarrow> sbml_to_model lib doc number f) of
        Inl e \<Rightarrow> Inl (CobraSBMLError ''Something went wrong reading the SBML model.'')
      | Inr result \<Rightarrow> Inr result)"

section \<open>Example inputs\<close>

text \<open>
  The default configuration of cobra: lower bound -1000 and upper bound 1000.
\<close>

definition default_configuration :: configuration where
  "default_configuration = \<lparr>LOWER_BOUND = - 1000, UPPER_BOUND = 1000\<rparr>"

text \<open>
  A model with two metabolites and two reactions, written with first-class features only.
  The first reaction has the default bounds; the second has a lower bound of -2000.
\<close>

definition example_model :: cobra_model where
  "example_model =
     (Model ''toy'')
       \<lparr>cm_name := Some ''toy'',
        cm_compartments := [(''c'', ''cytosol'')],
        cm_metabolites :=
          [\<lparr>met_id = ''a'', met_name = ''A'', met_compartment = ''c'', met_charge = Some 0,
            met_formula = Some ''C6H12O6'', met_notes = [], met_annotation = []\<rparr>,
           \<lparr>met_id = ''b'', met_name = ''B'', met_compartment = ''c'', met_charge = Some (- 2),
            met_formula = Some ''C3H4O3'', met_notes = [], met_annotation = []\<rparr>],
        cm_reactions :=
          [\<lparr>rxn_id = ''r1'', rxn_name = ''first'', rxn_lower_bound = - 1000,
            rxn_upper_bound = 1000, rxn_metabolites = [(''a'', - 1), (''b'', 2)],
            rxn_gene_reaction_rule = [], rxn_notes = [], rxn_annotation = []\<rparr>,
           \<lparr>rxn_id = ''r2'', rxn_name = ''second'', rxn_lower_bound = - 2000,
            rxn_upper_bound = 1000, rxn_metabolites = [(''b'', - 1)],
            rxn_gene_reaction_rule = [], rxn_notes = [], rxn_annotation = []\<rparr>],
        cm_objective := [(''r1'', 1)]\<rparr>"

text \<open>
  A reaction whose lower bound equals the configured default upper bound.
\<close>

definition forced_reaction :: reaction where
  "forced_reaction =
     \<lparr>rxn_id = ''r3'', rxn_name = ''forced'', rxn_lower_bound = 1000, rxn_upper_bound = 2000,
      rxn_metabolites = [], rxn_gene_reaction_rule = [], rxn_notes = [], rxn_annotation = []\<rparr>"

text \<open>A reaction with the lower bound zero and an upper bound of its own.\<close>

definition irreversible_reaction :: reaction where
  "irreversible_reaction =
     \<lparr>rxn_id = ''r4'', rxn_name = ''irreversible'', rxn_lower_bound = 0, rxn_upper_bound = 2000,
      rxn_metabolites = [], rxn_gene_reaction_rule = [], rxn_notes = [], rxn_annotation = []\<rparr>"

text \<open>Elements for documents written by hand.\<close>

definition element :: "string \<Rightarrow> string \<Rightarrow> sbase" where
  "element i n = new_sbase\<lparr>sb_id := i, sb_name := n\<rparr>"

definition legacy_species :: "string \<Rightarrow> bool \<Rightarrow> sbml_species" where
  "legacy_species i boundary =
     sbase.extend (element i i)
       (sbml_species.fields ''c'' False boundary False None None)"

definition legacy_reaction ::
  "string \<Rightarrow> string \<Rightarrow> string \<Rightarrow> (string \<times> real) list \<Rightarrow> sbml_reaction" where
  "legacy_reaction i notes reactant params =
     sbase.extend ((element i i)\<lparr>sb_notes := notes\<rparr>)
       (sbml_reaction.fields False False
          [\<lparr>sr_species = reactant, sr_stoichiometry = 1, sr_constant = True\<rparr>] []
          None
          (Some \<lparr>kl_parameters = map (\<lambda>(k, v). \<lparr>lp_id = k, lp_value = v\<rparr>) params\<rparr>))"

definition legacy_document :: "sbml_species list \<Rightarrow> sbml_reaction list \<Rightarrow> sbml_document" where
  "legacy_document species reactions =
     sbase.extend new_sbase
       (sbml_document.fields 2 1 []
          (Some (sbase.extend (element ''legacy'' ''legacy'')
                   (sbml_model.fields None [] [] species [] reactions None None)))
          [])"

text \<open>
  A document without the fbc package whose only reaction carries its gene association in
  the notes, once with the outer parentheses and once without.
\<close>

definition gpr_notes_document :: sbml_document where
  "gpr_notes_document =
     legacy_document [legacy_species ''M_a'' False]
       [legacy_reaction ''R_r1'' ''<p>GENE_ASSOCIATION: (g1 and g2)</p>'' ''M_a''
          [(''LOWER_BOUND'', 0), (''UPPER_BOUND'', 1000)]]"

definition gpr_plain_notes_document :: sbml_document where
  "gpr_plain_notes_document =
     legacy_document [legacy_species ''M_a'' False]
       [legacy_reaction ''R_r1'' ''<p>GENE_ASSOCIATION: g1 and g2</p>'' ''M_a''
          [(''LOWER_BOUND'', 0), (''UPPER_BOUND'', 1000)]]"

text \<open>
  A document without the fbc package with two reactions; the kinetic law of the first
  gives it the objective coefficient 1, that of the second the coefficient 0.
\<close>

definition legacy_objective_document :: sbml_document where
  "legacy_objective_document =
     legacy_document [legacy_species ''M_a'' False]
       [legacy_reaction ''R_r1'' [] ''M_a''
          [(''LOWER_BOUND'', 0), (''UPPER_BOUND'', 1000), (''OBJECTIVE_COEFFICIENT'', 1)],
        legacy_reaction ''R_r2'' [] ''M_a''
          [(''LOWER_BOUND'', 0), (''UPPER_BOUND'', 1000), (''OBJECTIVE_COEFFICIENT'', 0)]]"

text \<open>
  A document whose species \<open>M_a\<close> has its boundary condition set and is the reactant of
  the only reaction.
\<close>

definition boundary_document :: sbml_document where
  "boundary_document =
     legacy_document [legacy_species ''M_a'' True, legacy_species ''M_b'' False]
       [(legacy_reaction ''R_r1'' [] ''M_a''
          [(''LOWER_BOUND'', 0), (''UPPER_BOUND'', 1000)])
          \<lparr>rx_products := [\<lparr>sr_species = ''M_b'', sr_stoichiometry = 1, sr_constant = True\<rparr>]\<rparr>]"

text \<open>A document in which libsbml found no model.\<close>

definition empty_document :: sbml_document where
  "empty_document = sbase.extend new_sbase (sbml_document.fields 3 1 [] None [])"

text \<open>
  A libsbml whose parser and converter give up and whose checks find nothing, one whose
  consistency check reports a warning, and collaborators that report nothing.
\<close>

definition example_libsbml :: libsbml where
  "example_libsbml =
     \<lparr>parse_infix = (\<lambda>text. None), convert_fbc_v1_to_v2 = (\<lambda>model. None),
      checkInternalConsistency = (\<lambda>doc. []), checkConsistency = (\<lambda>units practice doc. [])\<rparr>"

definition warning_libsbml :: libsbml where
  "warning_libsbml =
     example_libsbml
       \<lparr>checkConsistency := (\<lambda>units practice doc.
          [\<lparr>er_severity = SEV_WARNING, er_severity_string = ''Warning'',
            er_category = ''General SBML conformance'', er_package = [], er_line = 7,
            er_short_message = ''short'', er_message = ''long''\<rparr>])\<rparr>"

definition example_collaborators :: collaborators where
  "example_collaborators =
     \<lparr>check_metabolite_compartment_formula = (\<lambda>model. []), recorded_warnings = (\<lambda>doc. [])\<rparr>"

text \<open>A document whose only reaction has a kinetic law without bounds.\<close>

definition missing_bounds_document :: sbml_document where
  "missing_bounds_document =
     legacy_document [legacy_species ''M_a'' False] [legacy_reaction ''R_r1'' [] ''M_a'' []]"

text \<open>A model without reactions.\<close>

definition empty_model :: cobra_model where
  "empty_model = Model ''empty''"

section \<open>Properties of the identifier codec\<close>

lemma replace_single_char:
  "replace_nonempty [d] new s = concat (map (\<lambda>c. if c = d then new else [c]) s)"
  by (induction s) auto

lemma replace_inverse:
  "old \<noteq> [] \<Longrightarrow> new = [d] \<Longrightarrow> d \<notin> set s \<Longrightarrow>
   replace_nonempty [d] old (replace_nonempty old new s) = s"
proof (induction old new s rule: replace_nonempty.induct)
  case (1 old new)
  show ?case by simp
next
  case (2 old new c cs)
  show ?case
  proof (cases "prefix old (c # cs)")
    case True
    then obtain r where r: "c # cs = old @ r"
      by (auto simp: prefix_def)
    then have dr: "drop (length old) (c # cs) = r"
      by (metis append_eq_conv_conj)
    have nodot: "d \<notin> set r"
      using "2.prems"(3) r by (metis Un_iff set_append)
    have ih: "replace_nonempty [d] old (replace_nonempty old new r) = r"
      using "2.IH"(1) "2.prems"(1,2) True dr nodot by simp
    have "replace_nonempty old new (c # cs) = [d] @ replace_nonempty old new r"
      using True "2.prems"(1,2) dr by simp
    then show ?thesis
      using ih r by (simp add: replace_single_char)
  next
    case False
    then have step: "replace_nonempty old new (c # cs) = c # replace_nonempty old new cs"
      by simp
    have "c \<noteq> d" and "d \<notin> set cs"
      using "2.prems"(3) by auto
    then show ?thesis
      using "2.IH"(2) "2.prems"(1,2) False step by (simp add: replace_single_char)
  qed
qed

lemma replace_dot_inverse:
  "CHR ''.'' \<notin> set s \<Longrightarrow>
   replace_nonempty ''.'' SBML_DOT (replace_nonempty SBML_DOT ''.'' s) = s"
  by (rule replace_inverse) (simp_all add: SBML_DOT_def)

lemma replace_absent:
  "\<not> sublist old s \<Longrightarrow> replace_nonempty old new s = s"
proof (induction old new s rule: replace_nonempty.induct)
  case (1 old new)
  show ?case by simp
next
  case (2 old new c cs)
  from "2.prems" have np: "\<not> prefix old (c # cs)" and ns: "\<not> sublist old cs"
    by (auto simp: sublist_Cons_right)
  then show ?case
    using "2.IH"(2) by simp
qed

lemma replace_keeps_gene_prefix:
  assumes "prefix ''G_'' x" and "\<not> prefix SBML_DOT (tl x)"
  shows "\<exists>r. x = ''G_'' @ r \<and> replace_nonempty SBML_DOT ''.'' x = ''G_'' @ replace_nonempty SBML_DOT ''.'' r"
proof -
  from assms(1) obtain r where r: "x = ''G_'' @ r"
    by (auto simp: prefix_def)
  have a: "\<not> prefix SBML_DOT (CHR ''G'' # CHR ''_'' # r)"
    by (simp add: SBML_DOT_def)
  have b: "\<not> prefix SBML_DOT (CHR ''_'' # r)"
    using assms(2) r by simp
  have "replace_nonempty SBML_DOT ''.'' x = CHR ''G'' # CHR ''_'' # replace_nonempty SBML_DOT ''.'' r"
    using a b r by simp
  then show ?thesis
    using r by simp
qed

lemma replace_head_dot:
  "prefix SBML_DOT s \<Longrightarrow> \<exists>t. replace_nonempty SBML_DOT ''.'' s = CHR ''.'' # t"
  by (cases s) (auto simp: SBML_DOT_def)

lemma replace_head_other:
  "\<not> prefix SBML_DOT (c # cs) \<Longrightarrow>
   replace_nonempty SBML_DOT ''.'' (c # cs) = c # replace_nonempty SBML_DOT ''.'' cs"
  by simp

lemma dot_prefix_head: "prefix SBML_DOT (c # cs) \<Longrightarrow> c = CHR ''_''"
  by (simp add: SBML_DOT_def)

lemma replace_no_gene_prefix:
  assumes np: "\<not> prefix ''G_'' x"
  shows "\<not> prefix ''G_'' (replace_nonempty SBML_DOT ''.'' x)"
proof (cases x)
  case Nil
  then show ?thesis by simp
next
  case (Cons c cs)
  show ?thesis
  proof (cases "prefix SBML_DOT (c # cs)")
    case True
    then obtain t where "replace_nonempty SBML_DOT ''.'' x = CHR ''.'' # t"
      using replace_head_dot Cons by blast
    then show ?thesis by simp
  next
    case False
    then have h: "replace_nonempty SBML_DOT ''.'' x = c # replace_nonempty SBML_DOT ''.'' cs"
      using Cons replace_head_other by simp
    show ?thesis
    proof (cases "c = CHR ''G''")
      case False
      then show ?thesis using h by simp
    next
      case True
      show ?thesis
      proof (cases cs)
        case Nil
        then show ?thesis using h by simp
      next
        case (Cons e es)
        have e: "e \<noteq> CHR ''_''"
          using np True Cons \<open>x = c # cs\<close> by simp
        then have "\<not> prefix SBML_DOT (e # es)"
          using dot_prefix_head by blast
        then have "replace_nonempty SBML_DOT ''.'' cs = e # replace_nonempty SBML_DOT ''.'' es"
          using Cons replace_head_other by simp
        then show ?thesis using h e by simp
      qed
    qed
  qed
qed

lemma strip_restore_plain:
  "prefix pre x \<Longrightarrow> pre @ clip x pre = x"
  by (auto simp: clip_def startswith_def prefix_def)

lemma gene_roundtrip:
  assumes "prefix ''G_'' x" and "CHR ''.'' \<notin> set x" and "\<not> prefix SBML_DOT (tl x)"
  shows "f_gene_rev (f_gene x ''G_'') ''G_'' = x"
proof -
  obtain r where r: "x = ''G_'' @ r"
    and rr: "replace_nonempty SBML_DOT ''.'' x = ''G_'' @ replace_nonempty SBML_DOT ''.'' r"
    using replace_keeps_gene_prefix [OF assms(1) assms(3)] by blast
  have nd: "CHR ''.'' \<notin> set r"
    using assms(2) r by simp
  have "f_gene x ''G_'' = replace_nonempty SBML_DOT ''.'' r"
    using rr by (simp add: f_gene_def clip_def startswith_def str_replace_def SBML_DOT_def)
  then have "f_gene_rev (f_gene x ''G_'') ''G_''
             = ''G_'' @ replace_nonempty ''.'' SBML_DOT (replace_nonempty SBML_DOT ''.'' r)"
    by (simp add: f_gene_rev_def str_replace_def)
  then show ?thesis
    using replace_dot_inverse [OF nd] r by simp
qed

lemma gene_strip_without_prefix:
  assumes "\<not> prefix ''G_'' x"
  shows "f_gene x ''G_'' = str_replace SBML_DOT ''.'' x"
  using replace_no_gene_prefix [OF assms]
  by (simp add: f_gene_def clip_def startswith_def str_replace_def SBML_DOT_def)

lemma replace_length_le:
  "length new \<le> length old \<Longrightarrow> length (replace_nonempty old new s) \<le> length s"
proof (induction old new s rule: replace_nonempty.induct)
  case (1 old new)
  show ?case by simp
next
  case (2 old new c cs)
  show ?case
  proof (cases "old \<noteq> [] \<and> prefix old (c # cs)")
    case True
    then have le: "length old \<le> length (c # cs)"
      using prefix_length_le [of old "c # cs"] by blast
    have "length (replace_nonempty old new (drop (length old) (c # cs)))
          \<le> length (drop (length old) (c # cs))"
      using "2.IH"(1) True "2.prems" by blast
    then have "length (replace_nonempty old new (c # cs))
               \<le> length new + (length (c # cs) - length old)"
      using True by simp
    then show ?thesis
      using le "2.prems" by linarith
  next
    case False
    then have "length (replace_nonempty old new cs) \<le> length cs"
      using "2.IH"(2) "2.prems" by blast
    then show ?thesis
      using False by auto
  qed
qed

lemma replace_present_shorter:
  "sublist old s \<Longrightarrow> old \<noteq> [] \<Longrightarrow> length new < length old \<Longrightarrow>
   length (replace_nonempty old new s) < length s"
proof (induction old new s rule: replace_nonempty.induct)
  case (1 old new)
  then show ?case by simp
next
  case (2 old new c cs)
  show ?case
  proof (cases "prefix old (c # cs)")
    case True
    then have le: "length old \<le> length (c # cs)"
      using prefix_length_le [of old "c # cs"] by blast
    have "length (replace_nonempty old new (drop (length old) (c # cs)))
          \<le> length (drop (length old) (c # cs))"
      using replace_length_le [of new old "drop (length old) (c # cs)"] "2.prems"(3)
      by linarith
    then have "length (replace_nonempty old new (c # cs))
               \<le> length new + (length (c # cs) - length old)"
      using True "2.prems"(2) by simp
    then show ?thesis
      using le "2.prems"(3) by linarith
  next
    case False
    then have "sublist old cs"
      using "2.prems"(1) by (simp add: sublist_Cons_right)
    then have "length (replace_nonempty old new cs) < length cs"
      using "2.IH"(2) False "2.prems" by blast
    then show ?thesis
      using False by auto
  qed
qed

lemma replace_present_changes:
  "sublist SBML_DOT x \<Longrightarrow> replace_nonempty SBML_DOT ''.'' x \<noteq> x"
  using replace_present_shorter [of SBML_DOT x "''.''"]
  by (auto simp add: SBML_DOT_def)

text \<open>
  C6 (as the code has it). For species and reaction ids the claim holds as written:
  restoring a stripped id that carried the prefix gives the id back, and stripping an id
  without the prefix changes nothing. For gene ids the dot escape takes part: the round
  trip gives the id back when the id carries \<open>G_\<close>, contains no literal dot and the
  placeholder does not start at its second character (where it would swallow the
  underscore of the prefix); and stripping a gene id without the prefix replaces each
  placeholder by a dot, so it returns the id unchanged if and only if the placeholder
  does not occur in the id.
\<close>

theorem identifier_roundtrip_amended:
  "(k \<noteq> KGene \<and> prefix (kind_prefix k) x \<longrightarrow> restore_id k (strip_id k x) = x) \<and>
   (k \<noteq> KGene \<and> \<not> prefix (kind_prefix k) x \<longrightarrow> strip_id k x = x) \<and>
   (prefix ''G_'' x \<and> CHR ''.'' \<notin> set x \<and> \<not> prefix SBML_DOT (tl x)
      \<longrightarrow> restore_id KGene (strip_id KGene x) = x) \<and>
   (\<not> prefix ''G_'' x \<longrightarrow> strip_id KGene x = str_replace SBML_DOT ''.'' x) \<and>
   (\<not> prefix ''G_'' x \<longrightarrow> (strip_id KGene x = x \<longleftrightarrow> \<not> sublist SBML_DOT x))"
proof (intro conjI impI)
  assume "k \<noteq> KGene \<and> prefix (kind_prefix k) x"
  then show "restore_id k (strip_id k x) = x"
    using strip_restore_plain [of "''M_''" x] strip_restore_plain [of "''R_''" x]
    by (cases k)
       (simp_all add: apply_replace_def F_REPLACE_def f_specie_def f_specie_rev_def
          f_reaction_def f_reaction_rev_def)
next
  assume "k \<noteq> KGene \<and> \<not> prefix (kind_prefix k) x"
  then show "strip_id k x = x"
    by (cases k)
       (simp_all add: apply_replace_def F_REPLACE_def f_specie_def f_reaction_def
          clip_def startswith_def)
next
  assume "prefix ''G_'' x \<and> CHR ''.'' \<notin> set x \<and> \<not> prefix SBML_DOT (tl x)"
  then show "restore_id KGene (strip_id KGene x) = x"
    using gene_roundtrip [of x] by (simp add: apply_replace_def F_REPLACE_def)
next
  assume "\<not> prefix ''G_'' x"
  then show "strip_id KGene x = str_replace SBML_DOT ''.'' x"
    using gene_strip_without_prefix [of x] by (simp add: apply_replace_def F_REPLACE_def)
next
  assume a: "\<not> prefix ''G_'' x"
  then have s: "strip_id KGene x = replace_nonempty SBML_DOT ''.'' x"
    using gene_strip_without_prefix [of x]
    by (simp add: apply_replace_def F_REPLACE_def str_replace_def SBML_DOT_def)
  show "strip_id KGene x = x \<longleftrightarrow> \<not> sublist SBML_DOT x"
  proof
    assume "strip_id KGene x = x"
    then show "\<not> sublist SBML_DOT x"
      using s replace_present_changes [of x] by auto
  next
    assume "\<not> sublist SBML_DOT x"
    then show "strip_id KGene x = x"
      using s replace_absent [of SBML_DOT x] by simp
  qed
qed

theorem identifier_roundtrip_amended_witness:
  "restore_id KSpecie (strip_id KSpecie ''M_glc'') = ''M_glc'' \<and>
   strip_id KReaction ''PGI'' = ''PGI'' \<and>
   restore_id KGene (strip_id KGene ''G_b0001'') = ''G_b0001'' \<and>
   strip_id KGene ''b0001__SBML_DOT__1'' = ''b0001.1'' \<and>
   strip_id KGene ''b0001'' = ''b0001'' \<and>
   strip_id KGene ''b__SBML_DOT__1'' \<noteq> ''b__SBML_DOT__1''"
proof -
  have s: "\<not> sublist SBML_DOT ''b0001''"
    by (simp add: SBML_DOT_def sublist_Cons_right)
  have t: "sublist SBML_DOT ''b__SBML_DOT__1''"
    by (simp add: SBML_DOT_def sublist_Cons_right)
  show ?thesis
    using identifier_roundtrip_amended [of KSpecie "''M_glc''"]
      identifier_roundtrip_amended [of KReaction "''PGI''"]
      identifier_roundtrip_amended [of KGene "''G_b0001''"]
      identifier_roundtrip_amended [of KGene "''b0001__SBML_DOT__1''"]
      identifier_roundtrip_amended [of KGene "''b0001''"]
      identifier_roundtrip_amended [of KGene "''b__SBML_DOT__1''"] s t
    by (simp add: SBML_DOT_def str_replace_def)
qed

theorem identifier_roundtrip_counterexample:
  "restore_id KGene (strip_id KGene ''G_b0001.1'') = ''G_b0001__SBML_DOT__1'' \<and>
   restore_id KGene (strip_id KGene ''G_b0001.1'') \<noteq> ''G_b0001.1'' \<and>
   strip_id KGene ''b0001__SBML_DOT__1'' = ''b0001.1'' \<and>
   strip_id KGene ''b0001__SBML_DOT__1'' \<noteq> ''b0001__SBML_DOT__1''"
  by (simp add: apply_replace_def F_REPLACE_def f_gene_def f_gene_rev_def clip_def
      startswith_def str_replace_def SBML_DOT_def)

section \<open>Properties of the annotation codec\<close>

lemma parse_chebi_resource:
  "parse_resource ([], []) ''https://identifiers.org/chebi/CHEBI:17234''
   = ([(''chebi'', AStr ''CHEBI:17234'')], [])"
  by (simp add: parse_resource_def)

text \<open>
  C7. Serializing the annotation \<open>{"chebi": "CHEBI:17234"}\<close> onto an element succeeds and
  attaches exactly one term, a biological qualifier \<open>is\<close> with the single resource
  \<open>https://identifiers.org/chebi/CHEBI:17234\<close>; on an element that had no SBO term and no
  terms before, parsing the result gives back the dictionary with the bare string.
\<close>

theorem annotation_roundtrip:
  fixes sb :: "'a sbase_scheme"
  shows "\<exists>sb'. sbase_annotations sb [(''chebi'', AStr ''CHEBI:17234'')] = Inr sb' \<and>
     sb_cvterms sb' = sb_cvterms sb @
        [\<lparr>cv_qualifier_type = BIOLOGICAL_QUALIFIER, cv_qualifier = BQB_IS,
          cv_resources = [''https://identifiers.org/chebi/CHEBI:17234'']\<rparr>] \<and>
     (sb_sbo_term sb = None \<and> sb_cvterms sb = [] \<longrightarrow>
        parse_annotations sb' = [(''chebi'', AStr ''CHEBI:17234'')])"
  using parse_chebi_resource
  by (simp add: sbase_annotations_def standardize_def make_cvterm_def QUALIFIER_TYPES_def
      startswith_def URL_IDENTIFIERS_PREFIX_def addCVTerm_def parse_annotations_def
      parse_annotations_log_def)

theorem annotation_roundtrip_witness:
  "\<exists>sb'. sbase_annotations new_sbase [(''chebi'', AStr ''CHEBI:17234'')] = Inr sb' \<and>
     sb_cvterms sb' =
        [\<lparr>cv_qualifier_type = BIOLOGICAL_QUALIFIER, cv_qualifier = BQB_IS,
          cv_resources = [''https://identifiers.org/chebi/CHEBI:17234'']\<rparr>] \<and>
     parse_annotations sb' = [(''chebi'', AStr ''CHEBI:17234'')]"
  using annotation_roundtrip [of new_sbase]
  by (simp add: new_sbase_def)

section \<open>The reader and the writer on the example inputs\<close>

text \<open>
  C1. Round trip with the default identifier codec on \<open>example_model\<close>, a model with
  first-class features only: writing succeeds, reading the written document succeeds
  and gives back the metabolites, the stoichiometry and the upper bounds, but the lower
  bound of the first reaction, -1000 in the model, is read back as -2000. The writer
  stores the smallest lower bound of the model (-2000) under \<open>cobra_default_lb\<close>, and
  \<open>_create_bound\<close> refers a bound equal to the configured default (-1000) to that
  parameter.
\<close>

theorem roundtrip_changes_default_lower_bound:
  "(case model_to_sbml default_configuration lib example_model F_REPLACE True of
      Inl e \<Rightarrow> False
    | Inr doc \<Rightarrow>
        (case sbml_to_model lib doc float_number F_REPLACE of
           Inl e \<Rightarrow> False
         | Inr (m, warnings) \<Rightarrow>
             cm_metabolites m = cm_metabolites example_model \<and>
             map rxn_metabolites (cm_reactions m) = map rxn_metabolites (cm_reactions example_model) \<and>
             map rxn_upper_bound (cm_reactions m) = map rxn_upper_bound (cm_reactions example_model) \<and>
             map rxn_lower_bound (cm_reactions example_model) = [- 1000, - 2000] \<and>
             map rxn_lower_bound (cm_reactions m) = [- 2000, - 2000]))"
  by code_simp

text \<open>
  C4, first part. The notes \<open><p>CHARGE: -2</p><p>FORMULA: C6H12O6</p>\<close> parse to the
  formula alone: the minus sign is outside the class \<open>[\w|\s]\<close> of the value, so the first
  paragraph does not match. With the charge \<open>2\<close> both entries are found.
\<close>

theorem parse_notes_negative_charge:
  "parse_notes_dict ''<p>CHARGE: -2</p><p>FORMULA: C6H12O6</p>'' = [(''FORMULA'', ''C6H12O6'')] \<and>
   parse_notes_dict ''<p>CHARGE: 2</p><p>FORMULA: C6H12O6</p>''
     = [(''CHARGE'', ''2''), (''FORMULA'', ''C6H12O6'')]"
  by code_simp

text \<open>
  C5. Reading \<open>gpr_notes_document\<close>, which has no fbc gene products and whose reaction has
  the note \<open>GENE_ASSOCIATION: (g1 and g2)\<close>, gives a model without genes and with an empty
  gene association for the reaction: the parenthesis is outside the class of the value in
  the notes pattern, so the note is not found. Without the parentheses the genes \<open>g1\<close> and
  \<open>g2\<close> are created and the association is \<open>g1 and g2\<close>.
\<close>

theorem legacy_gpr_with_parentheses_lost:
  "(case sbml_to_model lib gpr_notes_document float_number F_REPLACE of
      Inl e \<Rightarrow> False
    | Inr (m, warnings) \<Rightarrow>
        cm_genes m = [] \<and> map rxn_gene_reaction_rule (cm_reactions m) = [[]]) \<and>
   (case sbml_to_model lib gpr_plain_notes_document float_number F_REPLACE of
      Inl e \<Rightarrow> False
    | Inr (m, warnings) \<Rightarrow>
        map gene_id (cm_genes m) = [''g1'', ''g2''] \<and>
        map rxn_gene_reaction_rule (cm_reactions m) = [''g1 and g2''])"
  by code_simp

text \<open>
  C8. Reading \<open>boundary_document\<close>, in which the reaction \<open>R_r1\<close> has the reactant \<open>M_a\<close>,
  a species whose boundary condition is set, and the product \<open>M_b\<close>. With the default
  identifier codec the reader succeeds, keeps the reference to \<open>M_a\<close> in the stoichiometry
  of the reaction and logs no warning about it: \<open>boundary_ids\<close> holds the id \<open>M_a\<close> as
  written in the document and the reference is looked up under the stripped id \<open>a\<close>.
  With the empty codec the id is found in \<open>boundary_ids\<close> and the reader raises
  \<open>AttributeError\<close> while it builds the text of the warning. Under neither configuration
  is the reference dropped with a warning.
\<close>

theorem boundary_reference_kept_by_default_codec:
  "(case sbml_to_model lib boundary_document float_number F_REPLACE of
      Inl e \<Rightarrow> False
    | Inr (m, warnings) \<Rightarrow>
        map rxn_metabolites (cm_reactions m) = [[(''a'', - 1), (''b'', 1)]] \<and>
        ''Boundary metabolite a used in reaction r1'' \<notin> set warnings \<and>
        ''Boundary metabolite M_a used in reaction r1'' \<notin> set warnings \<and>
        ''Boundary metabolite M_a used in reaction R_r1'' \<notin> set warnings) \<and>
   sbml_to_model lib boundary_document float_number Map.empty
     = Inl (AttributeError ''Reaction object has no attribute getId'')"
  by code_simp

text \<open>
  C9. Reading \<open>legacy_objective_document\<close>: the kinetic law of the first reaction gives the
  objective coefficient 1, but the reader takes the coefficient of every reaction from
  the kinetic law of the last reaction of the model, so the first reaction gets 0.
\<close>

theorem legacy_objective_from_last_reaction:
  "(case sbml_to_model lib legacy_objective_document float_number F_REPLACE of
      Inl e \<Rightarrow> False
    | Inr (m, warnings) \<Rightarrow>
        cm_objective m = [(''r1'', 0), (''r2'', 0)] \<and>
        map (objective_coefficient m) (cm_reactions m) = [0, 0])"
  by code_simp

section \<open>Properties of the notes codec\<close>

lemma notes_values_nonempty:
  "(k, v) \<in> set (parse_notes_dict notes) \<Longrightarrow> v \<noteq> []"
  by (auto simp: parse_notes_dict_def Let_def split: if_splits)

lemma notes_dict_distinct:
  "distinct (map fst d) \<Longrightarrow>
   distinct (map fst (foldl (\<lambda>d (k, v). AList.update (str_strip k) (str_strip v) d) d ms))"
  by (induction ms arbitrary: d) (auto simp: distinct_update)

lemma notes_empty_value_absent:
  assumes "map_of (foldl (\<lambda>d (k, v). AList.update (str_strip k) (str_strip v) d) []
                     (notes_findall notes)) key = Some []"
  shows "key \<notin> fst ` set (parse_notes_dict notes)"
proof
  let ?d = "foldl (\<lambda>d (k, v). AList.update (str_strip k) (str_strip v) d) [] (notes_findall notes)"
  assume "key \<in> fst ` set (parse_notes_dict notes)"
  then obtain v where v: "(key, v) \<in> set (parse_notes_dict notes)"
    by force
  then have ne: "v \<noteq> []"
    by (rule notes_values_nonempty)
  have "(key, v) \<in> set ?d"
    using v by (auto simp: parse_notes_dict_def Let_def split: if_splits)
  moreover have "distinct (map fst ?d)"
    by (rule notes_dict_distinct) simp
  ultimately have "map_of ?d key = Some v"
    by simp
  then show False
    using assms ne by simp
qed

section \<open>Properties of the validator\<close>

lemma err_present:
  "grp \<in> fst ` set errors \<Longrightarrow>
   \<exists>msgs. map_of errors grp = Some msgs \<and> err errors m grp = Inr (AList.update grp (msgs @ [m]) errors)"
  by (cases "map_of errors grp") (auto simp: err_def map_of_eq_None_iff)

lemma log_sbml_error_keys:
  assumes "er_severity e \<noteq> SEV_ERROR"
    and "{''SBML_FATAL'', ''SBML_SCHEMA_ERROR'', ''SBML_WARNING''} \<subseteq> fst ` set errors"
  shows "\<exists>errors'. log_sbml_error e errors = Inr errors' \<and> fst ` set errors' = fst ` set errors
          \<and> (\<forall>k. k \<notin> {''SBML_FATAL'', ''SBML_SCHEMA_ERROR'', ''SBML_WARNING''} \<longrightarrow> map_of errors' k = map_of errors k)"
proof (cases "er_severity e")
  case SEV_INFO
  then show ?thesis by (simp add: log_sbml_error_def)
next
  case SEV_WARNING
  obtain msgs where "err errors (error_string e) ''SBML_WARNING'' = Inr (AList.update ''SBML_WARNING'' (msgs @ [error_string e]) errors)"
    using err_present [of "''SBML_WARNING''" errors] assms(2) by blast
  then show ?thesis
    using SEV_WARNING assms(2) by (auto simp: log_sbml_error_def dom_update update_conv' simp flip: dom_map_of_conv_image_fst)
next
  case SEV_ERROR
  then show ?thesis using assms(1) by simp
next
  case SEV_FATAL
  obtain msgs where "err errors (error_string e) ''SBML_FATAL'' = Inr (AList.update ''SBML_FATAL'' (msgs @ [error_string e]) errors)"
    using err_present [of "''SBML_FATAL''" errors] assms(2) by blast
  then show ?thesis
    using SEV_FATAL assms(2) by (auto simp: log_sbml_error_def dom_update update_conv' simp flip: dom_map_of_conv_image_fst)
next
  case SEV_SCHEMA_ERROR
  obtain msgs where "err errors (error_string e) ''SBML_SCHEMA_ERROR'' = Inr (AList.update ''SBML_SCHEMA_ERROR'' (msgs @ [error_string e]) errors)"
    using err_present [of "''SBML_SCHEMA_ERROR''" errors] assms(2) by blast
  then show ?thesis
    using SEV_SCHEMA_ERROR assms(2) by (auto simp: log_sbml_error_def dom_update update_conv' simp flip: dom_map_of_conv_image_fst)
qed

lemma fold_log_keys:
  assumes "\<forall>e \<in> set es. er_severity e \<noteq> SEV_ERROR"
    and "{''SBML_FATAL'', ''SBML_SCHEMA_ERROR'', ''SBML_WARNING''} \<subseteq> fst ` set errors"
  shows "\<exists>errors'. fold_err log_sbml_error es errors = Inr errors' \<and>
           fst ` set errors' = fst ` set errors \<and>
           (\<forall>k. k \<notin> {''SBML_FATAL'', ''SBML_SCHEMA_ERROR'', ''SBML_WARNING''}
                \<longrightarrow> map_of errors' k = map_of errors k)"
  using assms
proof (induction es arbitrary: errors)
  case Nil
  then show ?case by simp
next
  case (Cons e es)
  from Cons.prems have sev: "er_severity e \<noteq> SEV_ERROR"
    by simp
  obtain e1 where e1: "log_sbml_error e errors = Inr e1"
    and k1: "fst ` set e1 = fst ` set errors"
    and m1: "\<forall>k. k \<notin> {''SBML_FATAL'', ''SBML_SCHEMA_ERROR'', ''SBML_WARNING''}
                 \<longrightarrow> map_of e1 k = map_of errors k"
    using log_sbml_error_keys [OF sev Cons.prems(2)] by blast
  have "\<exists>errors'. fold_err log_sbml_error es e1 = Inr errors' \<and>
           fst ` set errors' = fst ` set e1 \<and>
           (\<forall>k. k \<notin> {''SBML_FATAL'', ''SBML_SCHEMA_ERROR'', ''SBML_WARNING''}
                \<longrightarrow> map_of errors' k = map_of e1 k)"
    using Cons.IH [of e1] Cons.prems k1 by simp
  then show ?case
    using e1 k1 m1 by auto
qed

lemma initial_errors_lookup:
  "map_of (initial_errors u) ''SBML errors'' = Some []"
  "map_of (initial_errors u) ''other'' = Some []"
  "u \<Longrightarrow> {''SBML_FATAL'', ''SBML_SCHEMA_ERROR'', ''SBML_WARNING''} \<subseteq> fst ` set (initial_errors u)"
  by (simp_all add: initial_errors_def)

lemma err_on:
  "map_of errors grp = Some msgs \<Longrightarrow>
   \<exists>errors'. err errors m grp = Inr errors' \<and> map_of errors' grp = Some (msgs @ [m])"
  by (simp add: err_def update_conv')

lemma validate_unfold:
  assumes "get_doc_from_filename filename = Inr doc"
    and "doc_model doc = Some model"
    and "(if use_libsbml
          then fold_err log_sbml_error
                 (checked_errors lib doc internal_consistency check_units_consistency
                    check_modeling_practice)
                 (initial_errors use_libsbml)
          else Inr (initial_errors use_libsbml)) = Inr errs"
  shows "validate_sbml_model lib env filename use_libsbml check_model internal_consistency
             check_units_consistency check_modeling_practice =
         (case sbml_to_model lib doc float_number Map.empty of
            Inl e \<Rightarrow>
              (case err errs (error_message e)
                      (case e of CobraSBMLError m \<Rightarrow> ''SBML errors'' | _ \<Rightarrow> ''other'') of
                 Inl e' \<Rightarrow> Inl e'
               | Inr errors' \<Rightarrow> Inr (None, errors'))
          | Inr (cobra_model, logged) \<Rightarrow>
              Inr (Some cobra_model,
                   (let errors1 = AList.update ''warnings''
                           ((case map_of errs ''warnings'' of None \<Rightarrow> [] | Some ws \<Rightarrow> ws)
                            @ recorded_warnings env doc) errs
                    in if check_model
                       then AList.update ''validator''
                              ((case map_of errors1 ''validator'' of None \<Rightarrow> [] | Some vs \<Rightarrow> vs)
                               @ check_metabolite_compartment_formula env cobra_model) errors1
                       else errors1)))"
  unfolding validate_sbml_model_def using assms
  by (simp add: Let_def split: sum.split error.split prod.split)

text \<open>
  C3 (as the code has it). When a document with a model is obtained from the input and,
  if the libsbml check is switched on, its log has no entry of severity \<open>ERROR\<close>, the
  validator does not raise: a \<open>CobraSBMLError\<close> of the reader is returned as no model with
  its message under \<open>SBML errors\<close>, any other exception of the reader as no model with its
  message under \<open>other\<close>, and a model that could be built is returned.
\<close>

theorem validate_collects_reader_errors:
  assumes doc: "get_doc_from_filename filename = Inr doc"
    and model: "doc_model doc \<noteq> None"
    and sev: "use_libsbml \<longrightarrow>
              (\<forall>e \<in> set (checked_errors lib doc internal_consistency check_units_consistency
                            check_modeling_practice). er_severity e \<noteq> SEV_ERROR)"
  shows "\<exists>result errors.
           validate_sbml_model lib env filename use_libsbml check_model internal_consistency
             check_units_consistency check_modeling_practice = Inr (result, errors) \<and>
           (case sbml_to_model lib doc float_number Map.empty of
              Inl (CobraSBMLError msg) \<Rightarrow>
                result = None \<and> map_of errors ''SBML errors'' = Some [msg]
            | Inl e \<Rightarrow> result = None \<and> map_of errors ''other'' = Some [error_message e]
            | Inr (m, warnings) \<Rightarrow> result = Some m)"
proof -
  let ?es = "checked_errors lib doc internal_consistency check_units_consistency
               check_modeling_practice"
  let ?log = "if use_libsbml
              then fold_err log_sbml_error ?es (initial_errors use_libsbml)
              else Inr (initial_errors use_libsbml)"
  have "\<exists>errs. ?log = Inr errs \<and> map_of errs ''SBML errors'' = Some []
              \<and> map_of errs ''other'' = Some []"
  proof (cases use_libsbml)
    case True
    have noerr: "\<forall>e \<in> set ?es. er_severity e \<noteq> SEV_ERROR"
      using sev True by simp
    have keys: "{''SBML_FATAL'', ''SBML_SCHEMA_ERROR'', ''SBML_WARNING''}
                \<subseteq> fst ` set (initial_errors use_libsbml)"
      using True by (rule initial_errors_lookup(3))
    obtain errs where f: "fold_err log_sbml_error ?es (initial_errors use_libsbml) = Inr errs"
      and same: "\<forall>k. k \<notin> {''SBML_FATAL'', ''SBML_SCHEMA_ERROR'', ''SBML_WARNING''}
                \<longrightarrow> map_of errs k = map_of (initial_errors use_libsbml) k"
      using fold_log_keys [OF noerr keys] by blast
    have "map_of errs ''SBML errors'' = Some []"
      using same initial_errors_lookup(1) [of use_libsbml] by simp
    moreover have "map_of errs ''other'' = Some []"
      using same initial_errors_lookup(2) [of use_libsbml] by simp
    ultimately show ?thesis
      using True f by simp
  next
    case False
    then show ?thesis
      using initial_errors_lookup(1,2) by simp
  qed
  then obtain errs where log: "?log = Inr errs"
    and e1: "map_of errs ''SBML errors'' = Some []"
    and e2: "map_of errs ''other'' = Some []"
    by blast
  obtain model where m: "doc_model doc = Some model"
    using model by blast
  note unfold = validate_unfold [OF doc m log, of env check_model]
  show ?thesis
  proof (cases "sbml_to_model lib doc float_number Map.empty")
    case (Inr r)
    then show ?thesis
      unfolding unfold by (cases r) simp
  next
    case (Inl e)
    obtain a where a: "err errs (error_message e) ''SBML errors'' = Inr a"
      and a': "map_of a ''SBML errors'' = Some [error_message e]"
      using err_on [OF e1, of "error_message e"] by auto
    obtain b where b: "err errs (error_message e) ''other'' = Inr b"
      and b': "map_of b ''other'' = Some [error_message e]"
      using err_on [OF e2, of "error_message e"] by auto
    show ?thesis
      unfolding unfold using Inl a a' b b' by (cases e) simp_all
  qed
qed

theorem validate_collects_reader_errors_witness:
  "(\<exists>errors.
     validate_sbml_model example_libsbml example_collaborators
       (SourceString missing_bounds_document) False True True False False = Inr (None, errors) \<and>
     map_of errors ''SBML errors'' = Some [''Missing flux bounds on reaction R_r1'']) \<and>
   (\<exists>errors.
     validate_sbml_model warning_libsbml example_collaborators
       (SourceHandle missing_bounds_document) True True True False False = Inr (None, errors) \<and>
     map_of errors ''SBML errors'' = Some [''Missing flux bounds on reaction R_r1''])"
proof -
  have r: "sbml_to_model example_libsbml missing_bounds_document float_number Map.empty
           = Inl (CobraSBMLError ''Missing flux bounds on reaction R_r1'')"
    "sbml_to_model warning_libsbml missing_bounds_document float_number Map.empty
           = Inl (CobraSBMLError ''Missing flux bounds on reaction R_r1'')"
    by code_simp+
  have m: "doc_model missing_bounds_document \<noteq> None"
    by code_simp
  have g: "get_doc_from_filename (SourceString missing_bounds_document) = Inr missing_bounds_document"
    "get_doc_from_filename (SourceHandle missing_bounds_document) = Inr missing_bounds_document"
    by simp_all
  have s1: "False \<longrightarrow>
           (\<forall>e \<in> set (checked_errors example_libsbml missing_bounds_document True False False).
              er_severity e \<noteq> SEV_ERROR)"
    by simp
  have s2: "True \<longrightarrow>
           (\<forall>e \<in> set (checked_errors warning_libsbml missing_bounds_document True False False).
              er_severity e \<noteq> SEV_ERROR)"
    by code_simp
  show ?thesis
    using validate_collects_reader_errors [OF g(1) m s1, of example_collaborators True] r(1)
      validate_collects_reader_errors [OF g(2) m s2, of example_collaborators True] r(2)
    by auto
qed

text \<open>
  The claim of C3 as stated fails: for an input in which libsbml finds no model the
  validator raises \<open>CobraSBMLError\<close>.
\<close>

theorem validate_raises_counterexample:
  "validate_sbml_model example_libsbml example_collaborators (SourceString empty_document)
     False True True False False
   = Inl (CobraSBMLError ''No SBML model detected in file.'')"
  by code_simp

lemma validate_without_model_raises:
  assumes "get_doc_from_filename filename = Inr doc" and "doc_model doc = None"
  shows "validate_sbml_model lib env filename use_libsbml check_model internal_consistency
           check_units_consistency check_modeling_practice
         = Inl (CobraSBMLError ''No SBML model detected in file.'')"
  using assms by (simp add: validate_sbml_model_def)

lemma validate_unsupported_input_raises:
  "validate_sbml_model lib env SourceOther use_libsbml check_model internal_consistency
     check_units_consistency check_modeling_practice
   = Inl (CobraSBMLError ''Input format for filename is not supported.'')"
  by (simp add: validate_sbml_model_def)

text \<open>
  With the libsbml check switched on, an entry of severity \<open>ERROR\<close> is filed under the key
  \<open>SBML_ERROR\<close>, which the error map (it has \<open>SBML ERROR\<close>) does not have.
\<close>

lemma validate_key_error:
  assumes "er_severity e = SEV_ERROR"
  shows "log_sbml_error e (initial_errors True) = Inl (KeyError ''SBML_ERROR'')"
  using assms by (simp add: log_sbml_error_def err_def initial_errors_def)

section \<open>Properties of the writer\<close>






lemma create_parameter_result:
  assumes "create_parameter model pid val sbo constant units flux_udef = Inr model'"
  shows "\<exists>p. model' = model\<lparr>md_parameters := md_parameters model @ [p]\<rparr> \<and>
             sb_id p = pid \<and> p_value p = val \<and> p_constant p = constant \<and>
             sb_sbo_term p = (case sbo of None \<Rightarrow> None
                              | Some t \<Rightarrow> if is_sbo_term t then Some t else None)"
proof -
  let ?base = "\<lparr>sb_id = pid, sb_name = [], sb_meta_id = None, sb_sbo_term = None,
                sb_cvterms = [], sb_notes = [],
                p_value = val, p_constant = constant, p_units = None\<rparr>"
  let ?p = "case sbo of None \<Rightarrow> ?base
            | Some t \<Rightarrow> (if t \<noteq> [] then setSBOTerm t ?base else ?base)"
  have nil: "\<not> is_sbo_term []"
    by (simp add: is_sbo_term_def)
  have facts: "sb_id ?p = pid \<and> p_value ?p = val \<and> p_constant ?p = constant \<and>
               sb_sbo_term ?p = (case sbo of None \<Rightarrow> None
                                 | Some t \<Rightarrow> if is_sbo_term t then Some t else None)"
    using nil by (cases sbo) (simp_all add: setSBOTerm_def)
  have unfold: "create_parameter model pid val sbo constant units flux_udef =
         (if units
          then (case flux_udef of
                  None \<Rightarrow> Inl (AttributeError ''NoneType object has no attribute getId'')
                | Some u \<Rightarrow> Inr (model\<lparr>md_parameters :=
                               md_parameters model @ [?p\<lparr>p_units := Some (ud_id u)\<rparr>]\<rparr>))
          else Inr (model\<lparr>md_parameters := md_parameters model @ [?p]\<rparr>))"
    by (simp add: create_parameter_def Let_def)
  show ?thesis
  proof (cases units)
    case False
    then have "model' = model\<lparr>md_parameters := md_parameters model @ [?p]\<rparr>"
      using assms unfold by simp
    then show ?thesis
      using facts by blast
  next
    case True
    then obtain u where "flux_udef = Some u"
      using assms unfold by (cases flux_udef) simp_all
    then have "model' = model\<lparr>md_parameters :=
                  md_parameters model @ [?p\<lparr>p_units := Some (ud_id u)\<rparr>]\<rparr>"
      using assms unfold True by simp
    moreover have "sb_id (?p\<lparr>p_units := Some (ud_id u)\<rparr>) = pid \<and>
                   p_value (?p\<lparr>p_units := Some (ud_id u)\<rparr>) = val \<and>
                   p_constant (?p\<lparr>p_units := Some (ud_id u)\<rparr>) = constant \<and>
                   sb_sbo_term (?p\<lparr>p_units := Some (ud_id u)\<rparr>) =
                     (case sbo of None \<Rightarrow> None
                      | Some t \<Rightarrow> if is_sbo_term t then Some t else None)"
      using facts by simp
    ultimately show ?thesis
      by blast
  qed
qed

lemma create_bound_unfold:
  "create_bound cfg model reaction bound_type f units flux_udef =
     (case getattr_bound reaction bound_type of
        Inl e \<Rightarrow> Inl e
      | Inr val \<Rightarrow>
          if val = LOWER_BOUND cfg then Inr (model, LOWER_BOUND_ID)
          else if val = 0 then Inr (model, ZERO_BOUND_ID)
          else if val = UPPER_BOUND cfg then Inr (model, UPPER_BOUND_ID)
          else (case create_parameter model
                       (apply_replace f F_REACTION_REV (rxn_id reaction) @ ''_'' @ bound_type)
                       val (Some SBO_FLUX_BOUND) True units flux_udef of
                  Inl e \<Rightarrow> Inl e
                | Inr model' \<Rightarrow>
                    Inr (model', apply_replace f F_REACTION_REV (rxn_id reaction)
                                 @ ''_'' @ bound_type)))"
  by (simp add: create_bound_def Let_def split: sum.split)

lemma create_bound_parameters:
  assumes "create_bound cfg model reaction bound_type f units flux_udef = Inr (model', pid)"
  shows "\<exists>extra. model' = model\<lparr>md_parameters := md_parameters model @ extra\<rparr> \<and>
           (\<forall>p \<in> set extra. suffix (''_'' @ bound_type) (sb_id p))"
proof -
  have same: "model' = model \<Longrightarrow> ?thesis"
  proof -
    assume "model' = model"
    then have "model' = model\<lparr>md_parameters := md_parameters model @ []\<rparr>"
      by simp
    then show ?thesis
      by (metis empty_iff list.set(1))
  qed
  obtain val where v: "getattr_bound reaction bound_type = Inr val"
    using assms unfolding create_bound_unfold by (cases "getattr_bound reaction bound_type") simp_all
  show ?thesis
  proof (cases "val = LOWER_BOUND cfg \<or> val = 0 \<or> val = UPPER_BOUND cfg")
    case True
    then have "model' = model"
      using assms v unfolding create_bound_unfold by (simp split: if_splits)
    then show ?thesis by (rule same)
  next
    case False
    then have c: "create_parameter model
                    (apply_replace f F_REACTION_REV (rxn_id reaction) @ ''_'' @ bound_type)
                    val (Some SBO_FLUX_BOUND) True units flux_udef = Inr model'"
      using assms v unfolding create_bound_unfold by (simp split: sum.splits)
    from create_parameter_result [OF c] obtain p
      where "model' = model\<lparr>md_parameters := md_parameters model @ [p]\<rparr>"
        and "sb_id p = apply_replace f F_REACTION_REV (rxn_id reaction) @ ''_'' @ bound_type"
      by blast
    then show ?thesis
      by (intro exI [of _ "[p]"]) (simp add: suffix_def)
  qed
qed

lemma write_reaction_bounds:
  assumes "write_reaction cfg lib cobra_model f units flux_udef reaction st = Inr st'"
  shows "\<exists>model1 lb_id model2 ub_id r.
           create_bound cfg (fst st) reaction ''lower_bound'' f units flux_udef = Inr (model1, lb_id) \<and>
           create_bound cfg model1 reaction ''upper_bound'' f units flux_udef = Inr (model2, ub_id) \<and>
           fst st' = model2\<lparr>md_reactions := md_reactions model2 @ [r]\<rparr>"
proof -
  let ?r = "\<lparr>sb_id = apply_replace f F_REACTION_REV (rxn_id reaction),
             sb_name = rxn_name reaction, sb_meta_id = None,
             sb_sbo_term = None, sb_cvterms = [], sb_notes = [],
             rx_fast = False, rx_reversible = (rxn_lower_bound reaction < 0),
             rx_reactants = [], rx_products = [],
             rx_fbc = Some \<lparr>frp_lower_flux_bound = [], frp_upper_flux_bound = [],
                             frp_gpa = None\<rparr>,
             rx_kinetic_law = None\<rparr>"
  obtain r1 where a: "sbase_annotations ?r (rxn_annotation reaction) = Inr r1"
    using assms
    by (cases "sbase_annotations ?r (rxn_annotation reaction)")
       (simp_all add: write_reaction_def Let_def)
  have u: "units"
    using assms a by (simp add: write_reaction_def Let_def split: if_splits)
  obtain model1 lb_id
    where lb: "create_bound cfg (fst st) reaction ''lower_bound'' f units flux_udef = Inr (model1, lb_id)"
    using assms a u
    by (cases "create_bound cfg (fst st) reaction ''lower_bound'' f units flux_udef")
       (auto simp add: write_reaction_def Let_def)
  obtain model2 ub_id
    where ub: "create_bound cfg model1 reaction ''upper_bound'' f units flux_udef = Inr (model2, ub_id)"
    using assms a u lb
    by (cases "create_bound cfg model1 reaction ''upper_bound'' f units flux_udef")
       (auto simp add: write_reaction_def Let_def)
  have "\<exists>r. fst st' = model2\<lparr>md_reactions := md_reactions model2 @ [r]\<rparr>"
    using assms a u lb ub
    by (auto simp add: write_reaction_def Let_def)
  then show ?thesis
    using lb ub by blast
qed

lemma write_reaction_parameters:
  assumes "write_reaction cfg lib cobra_model f units flux_udef reaction st = Inr st'"
  shows "\<exists>extra r. fst st' = (fst st)\<lparr>md_parameters := md_parameters (fst st) @ extra,
                                        md_reactions := md_reactions (fst st) @ [r]\<rparr> \<and>
           (\<forall>p \<in> set extra. suffix ''_lower_bound'' (sb_id p) \<or> suffix ''_upper_bound'' (sb_id p))"
proof -
  from write_reaction_bounds [OF assms] obtain model1 lb_id model2 ub_id r where
    lb: "create_bound cfg (fst st) reaction ''lower_bound'' f units flux_udef = Inr (model1, lb_id)"
    and ub: "create_bound cfg model1 reaction ''upper_bound'' f units flux_udef = Inr (model2, ub_id)"
    and st': "fst st' = model2\<lparr>md_reactions := md_reactions model2 @ [r]\<rparr>"
    by blast
  from create_bound_parameters [OF lb] obtain e1
    where m1: "model1 = (fst st)\<lparr>md_parameters := md_parameters (fst st) @ e1\<rparr>"
      and f1: "\<forall>p \<in> set e1. suffix ''_lower_bound'' (sb_id p)"
    by auto
  from create_bound_parameters [OF ub] obtain e2
    where m2: "model2 = model1\<lparr>md_parameters := md_parameters model1 @ e2\<rparr>"
      and f2: "\<forall>p \<in> set e2. suffix ''_upper_bound'' (sb_id p)"
    by auto
  have "fst st' = (fst st)\<lparr>md_parameters := md_parameters (fst st) @ (e1 @ e2),
                            md_reactions := md_reactions (fst st) @ [r]\<rparr>"
    using st' m1 m2 by simp
  moreover have "\<forall>p \<in> set (e1 @ e2). suffix ''_lower_bound'' (sb_id p) \<or> suffix ''_upper_bound'' (sb_id p)"
    using f1 f2 by auto
  ultimately show ?thesis
    by blast
qed

lemma write_reactions_parameters:
  assumes "fold_err (write_reaction cfg lib cobra_model f units flux_udef) rs st = Inr st'"
  shows "\<exists>extra rs'. fst st' = (fst st)\<lparr>md_parameters := md_parameters (fst st) @ extra,
                                          md_reactions := md_reactions (fst st) @ rs'\<rparr> \<and>
           (\<forall>p \<in> set extra. suffix ''_lower_bound'' (sb_id p) \<or> suffix ''_upper_bound'' (sb_id p))"
  using assms
proof (induction rs arbitrary: st)
  case Nil
  then have "fst st' = (fst st)\<lparr>md_parameters := md_parameters (fst st) @ [],
                                md_reactions := md_reactions (fst st) @ []\<rparr>"
    by simp
  then show ?case
    by (metis empty_iff list.set(1))
next
  case (Cons r rs)
  then obtain st1 where s1: "write_reaction cfg lib cobra_model f units flux_udef r st = Inr st1"
    and rest: "fold_err (write_reaction cfg lib cobra_model f units flux_udef) rs st1 = Inr st'"
    by (auto split: sum.splits)
  from write_reaction_parameters [OF s1] obtain e1 r1
    where a: "fst st1 = (fst st)\<lparr>md_parameters := md_parameters (fst st) @ e1,
                                  md_reactions := md_reactions (fst st) @ [r1]\<rparr>"
      and fa: "\<forall>p \<in> set e1. suffix ''_lower_bound'' (sb_id p) \<or> suffix ''_upper_bound'' (sb_id p)"
    by blast
  from Cons.IH [OF rest] obtain e2 rs2
    where b: "fst st' = (fst st1)\<lparr>md_parameters := md_parameters (fst st1) @ e2,
                                   md_reactions := md_reactions (fst st1) @ rs2\<rparr>"
      and fb: "\<forall>p \<in> set e2. suffix ''_lower_bound'' (sb_id p) \<or> suffix ''_upper_bound'' (sb_id p)"
    by blast
  have "fst st' = (fst st)\<lparr>md_parameters := md_parameters (fst st) @ (e1 @ e2),
                            md_reactions := md_reactions (fst st) @ (r1 # rs2)\<rparr>"
    using a b by simp
  moreover have "\<forall>p \<in> set (e1 @ e2). suffix ''_lower_bound'' (sb_id p) \<or> suffix ''_upper_bound'' (sb_id p)"
    using fa fb by auto
  ultimately show ?case
    by blast
qed

lemma create_parameter_without_units:
  "\<exists>model'. create_parameter model pid val sbo constant False None = Inr model'"
  by (simp add: create_parameter_def Let_def)

lemma create_default_parameters_result:
  "\<exists>p1 p2 p3.
     create_default_parameters cfg M model
       = Inr (model\<lparr>md_parameters := md_parameters model @ [p1, p2, p3]\<rparr>) \<and>
     sb_id p1 = LOWER_BOUND_ID \<and> sb_id p2 = UPPER_BOUND_ID \<and> sb_id p3 = ZERO_BOUND_ID \<and>
     p_value p1 = fst (default_bound_values cfg M) \<and>
     p_value p2 = snd (default_bound_values cfg M) \<and> p_value p3 = 0 \<and>
     p_constant p1 \<and> p_constant p2 \<and> p_constant p3"
proof -
  obtain m1 where c1: "create_parameter model LOWER_BOUND_ID (fst (default_bound_values cfg M))
                         (Some SBO_DEFAULT_FLUX_BOUND) True False None = Inr m1"
    using create_parameter_without_units by blast
  obtain m2 where c2: "create_parameter m1 UPPER_BOUND_ID (snd (default_bound_values cfg M))
                         (Some SBO_DEFAULT_FLUX_BOUND) True False None = Inr m2"
    using create_parameter_without_units by blast
  obtain m3 where c3: "create_parameter m2 ZERO_BOUND_ID 0
                         (Some SBO_DEFAULT_FLUX_BOUND) True False None = Inr m3"
    using create_parameter_without_units by blast
  from create_parameter_result [OF c1] obtain p1
    where r1: "m1 = model\<lparr>md_parameters := md_parameters model @ [p1]\<rparr>"
      and i1: "sb_id p1 = LOWER_BOUND_ID" "p_value p1 = fst (default_bound_values cfg M)"
              "p_constant p1"
    by auto
  from create_parameter_result [OF c2] obtain p2
    where r2: "m2 = m1\<lparr>md_parameters := md_parameters m1 @ [p2]\<rparr>"
      and i2: "sb_id p2 = UPPER_BOUND_ID" "p_value p2 = snd (default_bound_values cfg M)"
              "p_constant p2"
    by auto
  from create_parameter_result [OF c3] obtain p3
    where r3: "m3 = m2\<lparr>md_parameters := md_parameters m2 @ [p3]\<rparr>"
      and i3: "sb_id p3 = ZERO_BOUND_ID" "p_value p3 = 0" "p_constant p3"
    by auto
  have "create_default_parameters cfg M model = Inr m3"
    using c1 c2 c3 by (simp add: create_default_parameters_def Let_def)
  moreover have "m3 = model\<lparr>md_parameters := md_parameters model @ [p1, p2, p3]\<rparr>"
    using r1 r2 r3 by simp
  ultimately show ?thesis
    using i1 i2 i3 by blast
qed

lemma model_to_sbml_result:
  assumes "model_to_sbml cfg lib M f units = Inr doc"
  shows "\<exists>model1 species model3 flux_objs model.
      create_default_parameters cfg M
        ((new_model M)\<lparr>md_unit_definitions :=
            (case (if units then Some \<lparr>ud_id = fst UNITS_FLUX, ud_units = snd UNITS_FLUX\<rparr>
                   else None) of None \<Rightarrow> [] | Some u \<Rightarrow> [u])\<rparr>) = Inr model1 \<and>
      map_err (write_species f) (cm_metabolites M) = Inr species \<and>
      fold_err (write_reaction cfg lib M f units
                  (if units then Some \<lparr>ud_id = fst UNITS_FLUX, ud_units = snd UNITS_FLUX\<rparr>
                   else None))
        (cm_reactions M)
        (model1\<lparr>md_compartments := map write_compartment (cm_compartments M),
                 md_species := species\<rparr>, []) = Inr (model3, flux_objs) \<and>
      doc_model doc = Some model \<and> md_species model = md_species model3 \<and>
      md_parameters model = md_parameters model3"
proof -
  let ?fu = "if units then Some \<lparr>ud_id = fst UNITS_FLUX, ud_units = snd UNITS_FLUX\<rparr> else None"
  let ?m0 = "(new_model M)\<lparr>md_unit_definitions := (case ?fu of None \<Rightarrow> [] | Some u \<Rightarrow> [u])\<rparr>"
  obtain doc0 where d0: "write_meta M new_document = Inr doc0"
    using assms by (cases "write_meta M new_document") (simp_all add: model_to_sbml_def)
  obtain model1 where m1: "create_default_parameters cfg M ?m0 = Inr model1"
    using create_default_parameters_result [of cfg M ?m0] by blast
  obtain species where sp: "map_err (write_species f) (cm_metabolites M) = Inr species"
    using assms d0 m1
    by (cases "map_err (write_species f) (cm_metabolites M)")
       (simp_all add: model_to_sbml_def Let_def)
  obtain gps where gp: "map_err (write_gene f) (cm_genes M) = Inr gps"
    using assms d0 m1 sp
    by (cases "map_err (write_gene f) (cm_genes M)")
       (simp_all add: model_to_sbml_def Let_def)
  obtain ot where ot: "map_of SHORT_LONG_DIRECTION (cm_direction M) = Some ot"
    using assms d0 m1 sp gp
    by (cases "map_of SHORT_LONG_DIRECTION (cm_direction M)")
       (simp_all add: model_to_sbml_def Let_def)
  let ?st = "(model1\<lparr>md_compartments := map write_compartment (cm_compartments M),
                      md_species := species\<rparr>, [] :: flux_objective list)"
  obtain model3 flux_objs
    where rs: "fold_err (write_reaction cfg lib M f units ?fu) (cm_reactions M) ?st
               = Inr (model3, flux_objs)"
    using assms d0 m1 sp gp ot
    by (cases "fold_err (write_reaction cfg lib M f units ?fu) (cm_reactions M) ?st")
       (auto simp add: model_to_sbml_def Let_def)
  have "\<exists>model. doc_model doc = Some model \<and> md_species model = md_species model3 \<and>
          md_parameters model = md_parameters model3"
  proof (cases "length (cm_groups M) > 0")
    case False
    then show ?thesis
      using assms d0 m1 sp gp ot rs by (auto simp add: model_to_sbml_def Let_def)
  next
    case True
    then obtain groups where "map_err (write_group f) (cm_groups M) = Inr groups"
      using assms d0 m1 sp gp ot rs
      by (cases "map_err (write_group f) (cm_groups M)")
         (auto simp add: model_to_sbml_def Let_def)
    then show ?thesis
      using True assms d0 m1 sp gp ot rs by (auto simp add: model_to_sbml_def Let_def)
  qed
  then show ?thesis
    using m1 sp rs by blast
qed

lemma reserved_ids_not_fresh:
  assumes "suffix ''_lower_bound'' i \<or> suffix ''_upper_bound'' i"
  shows "i \<notin> {''cobra_default_lb'', ''cobra_default_ub'', ''cobra_0_bound''}"
proof -
  have "\<not> suffix ''_lower_bound'' ''cobra_default_lb''" "\<not> suffix ''_upper_bound'' ''cobra_default_lb''"
       "\<not> suffix ''_lower_bound'' ''cobra_default_ub''" "\<not> suffix ''_upper_bound'' ''cobra_default_ub''"
       "\<not> suffix ''_lower_bound'' ''cobra_0_bound''" "\<not> suffix ''_upper_bound'' ''cobra_0_bound''"
    by (simp_all add: suffix_to_prefix)
  then show ?thesis
    using assms by blast
qed


lemma written_parameters:
  assumes "model_to_sbml cfg lib M f units = Inr doc"
  shows "\<exists>model p1 p2 p3 rest.
           doc_model doc = Some model \<and> md_parameters model = p1 # p2 # p3 # rest \<and>
           sb_id p1 = LOWER_BOUND_ID \<and> sb_id p2 = UPPER_BOUND_ID \<and> sb_id p3 = ZERO_BOUND_ID \<and>
           p_value p1 = fst (default_bound_values cfg M) \<and>
           p_value p2 = snd (default_bound_values cfg M) \<and> p_value p3 = 0 \<and>
           p_constant p1 \<and> p_constant p2 \<and> p_constant p3 \<and>
           (\<forall>p \<in> set rest. suffix ''_lower_bound'' (sb_id p) \<or> suffix ''_upper_bound'' (sb_id p))"
proof -
  let ?m0 = "(new_model M)\<lparr>md_unit_definitions :=
            (case (if units then Some \<lparr>ud_id = fst UNITS_FLUX, ud_units = snd UNITS_FLUX\<rparr>
                   else None) of None \<Rightarrow> [] | Some u \<Rightarrow> [u])\<rparr>"
  from model_to_sbml_result [OF assms] obtain model1 species model3 flux_objs model where
    dp: "create_default_parameters cfg M ?m0 = Inr model1"
    and rs: "fold_err (write_reaction cfg lib M f units
                  (if units then Some \<lparr>ud_id = fst UNITS_FLUX, ud_units = snd UNITS_FLUX\<rparr>
                   else None))
        (cm_reactions M)
        (model1\<lparr>md_compartments := map write_compartment (cm_compartments M),
                 md_species := species\<rparr>, []) = Inr (model3, flux_objs)"
    and m: "doc_model doc = Some model" "md_parameters model = md_parameters model3"
    by blast
  from create_default_parameters_result [of cfg M ?m0] dp obtain p1 p2 p3 where
    m1: "model1 = ?m0\<lparr>md_parameters := md_parameters ?m0 @ [p1, p2, p3]\<rparr>"
    and ps: "sb_id p1 = LOWER_BOUND_ID" "sb_id p2 = UPPER_BOUND_ID" "sb_id p3 = ZERO_BOUND_ID"
      "p_value p1 = fst (default_bound_values cfg M)"
      "p_value p2 = snd (default_bound_values cfg M)" "p_value p3 = 0"
      "p_constant p1" "p_constant p2" "p_constant p3"
    by auto
  have p1: "md_parameters model1 = [p1, p2, p3]"
    using m1 by (simp add: new_model_def)
  from write_reactions_parameters [OF rs] obtain extra rs' where
    m3: "model3 = (model1\<lparr>md_compartments := map write_compartment (cm_compartments M),
                           md_species := species\<rparr>)
                    \<lparr>md_parameters := md_parameters model1 @ extra,
                     md_reactions := md_reactions model1 @ rs'\<rparr>"
    and fr: "\<forall>p \<in> set extra. suffix ''_lower_bound'' (sb_id p) \<or> suffix ''_upper_bound'' (sb_id p)"
    by auto
  have "md_parameters model = p1 # p2 # p3 # extra"
    using m(2) m3 p1 by simp
  then show ?thesis
    using m(1) ps fr by blast
qed

lemma default_bound_values_without_reactions:
  "cm_reactions M = [] \<Longrightarrow> default_bound_values cfg M = (LOWER_BOUND cfg, UPPER_BOUND cfg)"
  by (simp add: default_bound_values_def)

text \<open>
  C2 (as the code has it). Whenever the writer returns a document, its first three
  parameters are constant and have the ids \<open>cobra_default_lb\<close>, \<open>cobra_default_ub\<close> and
  \<open>cobra_0_bound\<close>, no other parameter has one of these ids, the third has the value zero,
  and for a model without reactions the first two have the configured default bounds.
  Bound resolution is the same for both kinds of bound: a bound equal to the configured
  default lower bound resolves to \<open>cobra_default_lb\<close>; otherwise a bound of zero to
  \<open>cobra_0_bound\<close>; otherwise a bound equal to the configured default upper bound to
  \<open>cobra_default_ub\<close>; any other bound creates one constant parameter with the id of the
  reaction (after the reverse reaction transform), an underscore and the kind of bound,
  holding the bound and the flux bound SBO term, and resolves to it.
\<close>

theorem bound_parameters_amended:
  "(model_to_sbml cfg lib M f units = Inr doc \<longrightarrow>
      (\<exists>model p1 p2 p3 rest.
          doc_model doc = Some model \<and> md_parameters model = p1 # p2 # p3 # rest \<and>
          sb_id p1 = ''cobra_default_lb'' \<and> sb_id p2 = ''cobra_default_ub'' \<and>
          sb_id p3 = ''cobra_0_bound'' \<and>
          p_constant p1 \<and> p_constant p2 \<and> p_constant p3 \<and> p_value p3 = 0 \<and>
          (cm_reactions M = [] \<longrightarrow>
             p_value p1 = LOWER_BOUND cfg \<and> p_value p2 = UPPER_BOUND cfg) \<and>
          (\<forall>p \<in> set rest.
             sb_id p \<notin> {''cobra_default_lb'', ''cobra_default_ub'', ''cobra_0_bound''}))) \<and>
   (getattr_bound r bound_type = Inr v \<longrightarrow>
      (v = LOWER_BOUND cfg \<longrightarrow>
         create_bound cfg model r bound_type f units flux_udef = Inr (model, ''cobra_default_lb'')) \<and>
      (v \<noteq> LOWER_BOUND cfg \<and> v = 0 \<longrightarrow>
         create_bound cfg model r bound_type f units flux_udef = Inr (model, ''cobra_0_bound'')) \<and>
      (v \<noteq> LOWER_BOUND cfg \<and> v \<noteq> 0 \<and> v = UPPER_BOUND cfg \<longrightarrow>
         create_bound cfg model r bound_type f units flux_udef = Inr (model, ''cobra_default_ub'')) \<and>
      (v \<noteq> LOWER_BOUND cfg \<and> v \<noteq> 0 \<and> v \<noteq> UPPER_BOUND cfg \<and> (units \<longrightarrow> flux_udef \<noteq> None) \<longrightarrow>
         (\<exists>p. create_bound cfg model r bound_type f units flux_udef
                = Inr (model\<lparr>md_parameters := md_parameters model @ [p]\<rparr>,
                       apply_replace f F_REACTION_REV (rxn_id r) @ ''_'' @ bound_type) \<and>
              sb_id p = apply_replace f F_REACTION_REV (rxn_id r) @ ''_'' @ bound_type \<and>
              p_value p = v \<and> p_constant p \<and> sb_sbo_term p = Some ''SBO:0000625'')))"
proof (intro conjI impI)
  assume w: "model_to_sbml cfg lib M f units = Inr doc"
  from written_parameters [OF w] obtain model p1 p2 p3 rest where
    a: "doc_model doc = Some model" "md_parameters model = p1 # p2 # p3 # rest"
      "sb_id p1 = LOWER_BOUND_ID" "sb_id p2 = UPPER_BOUND_ID" "sb_id p3 = ZERO_BOUND_ID"
      "p_constant p1" "p_constant p2" "p_constant p3" "p_value p3 = 0"
    and v: "p_value p1 = fst (default_bound_values cfg M)"
      "p_value p2 = snd (default_bound_values cfg M)"
    and fr: "\<forall>p \<in> set rest. suffix ''_lower_bound'' (sb_id p) \<or> suffix ''_upper_bound'' (sb_id p)"
    by blast
  have "\<forall>p \<in> set rest.
          sb_id p \<notin> {''cobra_default_lb'', ''cobra_default_ub'', ''cobra_0_bound''}"
    using fr reserved_ids_not_fresh by blast
  moreover have "cm_reactions M = [] \<longrightarrow>
                 p_value p1 = LOWER_BOUND cfg \<and> p_value p2 = UPPER_BOUND cfg"
    using v default_bound_values_without_reactions [of M cfg] by simp
  ultimately show "\<exists>model p1 p2 p3 rest.
          doc_model doc = Some model \<and> md_parameters model = p1 # p2 # p3 # rest \<and>
          sb_id p1 = ''cobra_default_lb'' \<and> sb_id p2 = ''cobra_default_ub'' \<and>
          sb_id p3 = ''cobra_0_bound'' \<and>
          p_constant p1 \<and> p_constant p2 \<and> p_constant p3 \<and> p_value p3 = 0 \<and>
          (cm_reactions M = [] \<longrightarrow>
             p_value p1 = LOWER_BOUND cfg \<and> p_value p2 = UPPER_BOUND cfg) \<and>
          (\<forall>p \<in> set rest.
             sb_id p \<notin> {''cobra_default_lb'', ''cobra_default_ub'', ''cobra_0_bound''})"
    using a unfolding LOWER_BOUND_ID_def UPPER_BOUND_ID_def ZERO_BOUND_ID_def by blast
next
  assume "getattr_bound r bound_type = Inr v" "v = LOWER_BOUND cfg"
  then show "create_bound cfg model r bound_type f units flux_udef = Inr (model, ''cobra_default_lb'')"
    unfolding create_bound_unfold by (simp add: LOWER_BOUND_ID_def)
next
  assume "getattr_bound r bound_type = Inr v" "v \<noteq> LOWER_BOUND cfg \<and> v = 0"
  then show "create_bound cfg model r bound_type f units flux_udef = Inr (model, ''cobra_0_bound'')"
    unfolding create_bound_unfold by (simp add: ZERO_BOUND_ID_def)
next
  assume "getattr_bound r bound_type = Inr v" "v \<noteq> LOWER_BOUND cfg \<and> v \<noteq> 0 \<and> v = UPPER_BOUND cfg"
  then show "create_bound cfg model r bound_type f units flux_udef = Inr (model, ''cobra_default_ub'')"
    unfolding create_bound_unfold by (simp add: UPPER_BOUND_ID_def)
next
  let ?pid = "apply_replace f F_REACTION_REV (rxn_id r) @ ''_'' @ bound_type"
  assume g: "getattr_bound r bound_type = Inr v"
    and o: "v \<noteq> LOWER_BOUND cfg \<and> v \<noteq> 0 \<and> v \<noteq> UPPER_BOUND cfg \<and> (units \<longrightarrow> flux_udef \<noteq> None)"
  then obtain model' where
    c: "create_parameter model ?pid v (Some SBO_FLUX_BOUND) True units flux_udef = Inr model'"
    by (cases units; cases flux_udef) (simp_all add: create_parameter_def Let_def)
  from create_parameter_result [OF c] obtain p where
    p: "model' = model\<lparr>md_parameters := md_parameters model @ [p]\<rparr>" "sb_id p = ?pid"
       "p_value p = v" "p_constant p"
       "sb_sbo_term p = (if is_sbo_term SBO_FLUX_BOUND then Some SBO_FLUX_BOUND else None)"
    by auto
  have "is_sbo_term SBO_FLUX_BOUND"
    by (simp add: is_sbo_term_def SBO_FLUX_BOUND_def)
  then have sbo: "sb_sbo_term p = Some ''SBO:0000625''"
    using p(5) by (simp add: SBO_FLUX_BOUND_def)
  have "create_bound cfg model r bound_type f units flux_udef = Inr (model', ?pid)"
    unfolding create_bound_unfold using g o c by simp
  then show "\<exists>p. create_bound cfg model r bound_type f units flux_udef
                = Inr (model\<lparr>md_parameters := md_parameters model @ [p]\<rparr>, ?pid) \<and>
              sb_id p = ?pid \<and> p_value p = v \<and> p_constant p \<and>
              sb_sbo_term p = Some ''SBO:0000625''"
    using p sbo by blast
qed

theorem bound_parameters_amended_witness:
  "(\<exists>doc model p1 p2 p3 rest.
      model_to_sbml default_configuration example_libsbml empty_model F_REPLACE True = Inr doc \<and>
      doc_model doc = Some model \<and> md_parameters model = p1 # p2 # p3 # rest \<and>
      sb_id p1 = ''cobra_default_lb'' \<and> sb_id p2 = ''cobra_default_ub'' \<and>
      sb_id p3 = ''cobra_0_bound'' \<and>
      p_value p1 = - 1000 \<and> p_value p2 = 1000 \<and> p_value p3 = 0) \<and>
   create_bound default_configuration (new_model empty_model) irreversible_reaction
       ''lower_bound'' F_REPLACE False None
     = Inr (new_model empty_model, ''cobra_0_bound'') \<and>
   create_bound default_configuration (new_model empty_model) forced_reaction
       ''lower_bound'' F_REPLACE False None
     = Inr (new_model empty_model, ''cobra_default_ub'') \<and>
   create_bound default_configuration (new_model empty_model) (hd (cm_reactions example_model))
       ''lower_bound'' F_REPLACE False None
     = Inr (new_model empty_model, ''cobra_default_lb'') \<and>
   (\<exists>p. create_bound default_configuration (new_model empty_model) irreversible_reaction
            ''upper_bound'' F_REPLACE False None
          = Inr ((new_model empty_model)\<lparr>md_parameters := [p]\<rparr>, ''R_r4_upper_bound'') \<and>
        sb_id p = ''R_r4_upper_bound'' \<and> p_value p = 2000 \<and> p_constant p \<and>
        sb_sbo_term p = Some ''SBO:0000625'')"
proof -
  have "case model_to_sbml default_configuration example_libsbml empty_model F_REPLACE True of
          Inl e \<Rightarrow> False | Inr d \<Rightarrow> True"
    by code_simp
  then obtain doc
    where d: "model_to_sbml default_configuration example_libsbml empty_model F_REPLACE True
              = Inr doc"
    by (cases "model_to_sbml default_configuration example_libsbml empty_model F_REPLACE True")
       simp_all
  have e: "cm_reactions empty_model = []"
    by (simp add: empty_model_def Model_def)
  have cfg: "LOWER_BOUND default_configuration = - 1000" "UPPER_BOUND default_configuration = 1000"
    by (simp_all add: default_configuration_def)
  have g: "getattr_bound irreversible_reaction ''lower_bound'' = Inr 0"
    "getattr_bound forced_reaction ''lower_bound'' = Inr 1000"
    "getattr_bound (hd (cm_reactions example_model)) ''lower_bound'' = Inr (- 1000)"
    "getattr_bound irreversible_reaction ''upper_bound'' = Inr 2000"
    by (simp_all add: getattr_bound_def irreversible_reaction_def forced_reaction_def
        example_model_def)
  have rid: "apply_replace F_REPLACE F_REACTION_REV (rxn_id irreversible_reaction) @ ''_'' @ ''upper_bound''
             = ''R_r4_upper_bound''"
    by (simp add: apply_replace_def F_REPLACE_def f_reaction_rev_def irreversible_reaction_def)
  have np: "md_parameters (new_model empty_model) = []"
    by (simp add: new_model_def)
  note w = bound_parameters_amended [where cfg = default_configuration and lib = example_libsbml
      and M = empty_model and f = F_REPLACE and units = True and doc = doc]
  note t = bound_parameters_amended [where cfg = default_configuration and f = F_REPLACE
      and units = False and flux_udef = None and model = "new_model empty_model"]
  have first: "\<exists>model p1 p2 p3 rest.
      doc_model doc = Some model \<and> md_parameters model = p1 # p2 # p3 # rest \<and>
      sb_id p1 = ''cobra_default_lb'' \<and> sb_id p2 = ''cobra_default_ub'' \<and>
      sb_id p3 = ''cobra_0_bound'' \<and>
      p_value p1 = - 1000 \<and> p_value p2 = 1000 \<and> p_value p3 = 0"
    using w d e cfg by fastforce
  have second: "create_bound default_configuration (new_model empty_model) irreversible_reaction
       ''lower_bound'' F_REPLACE False None = Inr (new_model empty_model, ''cobra_0_bound'')"
    using t [where r = irreversible_reaction and bound_type = "''lower_bound''" and v = 0] g cfg
    by simp
  have third: "create_bound default_configuration (new_model empty_model) forced_reaction
       ''lower_bound'' F_REPLACE False None = Inr (new_model empty_model, ''cobra_default_ub'')"
    using t [where r = forced_reaction and bound_type = "''lower_bound''" and v = 1000] g cfg
    by simp
  have fourth: "create_bound default_configuration (new_model empty_model)
       (hd (cm_reactions example_model)) ''lower_bound'' F_REPLACE False None
       = Inr (new_model empty_model, ''cobra_default_lb'')"
    using t [where r = "hd (cm_reactions example_model)" and bound_type = "''lower_bound''"
               and v = "- 1000"] g cfg
    by simp
  have fifth: "\<exists>p. create_bound default_configuration (new_model empty_model) irreversible_reaction
            ''upper_bound'' F_REPLACE False None
          = Inr ((new_model empty_model)\<lparr>md_parameters := [p]\<rparr>, ''R_r4_upper_bound'') \<and>
        sb_id p = ''R_r4_upper_bound'' \<and> p_value p = 2000 \<and> p_constant p \<and>
        sb_sbo_term p = Some ''SBO:0000625''"
    using t [where r = irreversible_reaction and bound_type = "''upper_bound''" and v = 2000]
      g cfg rid np
    by simp
  show ?thesis
    using d first second third fourth fifth by blast
qed

text \<open>
  The claim of C2 as stated fails: the lower bound 1000 of \<open>forced_reaction\<close> is neither
  the configured default lower bound nor zero, and yet no parameter is created for it (it
  resolves to \<open>cobra_default_ub\<close>); and in the document written for \<open>example_model\<close> the
  parameter \<open>cobra_default_lb\<close> holds -2000, not the configured default -1000.
\<close>

theorem bound_parameters_counterexample:
  "create_bound default_configuration (new_model example_model) forced_reaction
       ''lower_bound'' F_REPLACE False None
     = Inr (new_model example_model, ''cobra_default_ub'') \<and>
   rxn_lower_bound forced_reaction \<noteq> LOWER_BOUND default_configuration \<and>
   rxn_lower_bound forced_reaction \<noteq> 0 \<and>
   (case model_to_sbml default_configuration example_libsbml example_model F_REPLACE True of
      Inl e \<Rightarrow> False
    | Inr doc \<Rightarrow>
        (case doc_model doc of
           None \<Rightarrow> False
         | Some model \<Rightarrow>
             map sb_id (take 3 (md_parameters model))
               = [''cobra_default_lb'', ''cobra_default_ub'', ''cobra_0_bound''] \<and>
             map p_value (take 3 (md_parameters model)) = [- 2000, 1000, 0] \<and>
             LOWER_BOUND default_configuration = - 1000))"
  by code_simp

text \<open>
  In general the first two parameters hold the smallest lower bound and the largest upper
  bound of the reactions of the model.
\<close>

lemma default_parameter_values:
  assumes "model_to_sbml cfg lib M f units = Inr doc"
  shows "\<exists>model. doc_model doc = Some model \<and>
           map p_value (take 3 (md_parameters model))
             = [fst (default_bound_values cfg M), snd (default_bound_values cfg M), 0]"
  using written_parameters [OF assms] by auto

text \<open>
  The writer returns a document for every writable model when the units are written.
\<close>

lemma annotate_providers_succeeds:
  "list_all (\<lambda>(provider, data). provider \<in> set [''SBO'', ''sbo''] \<longrightarrow> data \<noteq> []) ps \<Longrightarrow>
   \<exists>sb'. annotate_providers ps sb = Inr sb'"
proof (induction ps arbitrary: sb)
  case Nil
  show ?case by simp
next
  case (Cons p ps)
  obtain provider data where p: "p = (provider, data)"
    by (cases p)
  show ?case
  proof (cases "provider = ''SBO'' \<or> provider = ''sbo''")
    case True
    then obtain first others where "data = first # others"
      using Cons.prems p by (cases data) auto
    then show ?thesis
      using True p Cons.IH Cons.prems by simp
  next
    case False
    then show ?thesis
      using p Cons.IH Cons.prems by simp
  qed
qed

lemma sbase_annotations_succeeds:
  assumes "sbo_given ann"
  shows "\<exists>sb'. sbase_annotations sb ann = Inr sb'"
proof (cases "ann = []")
  case True
  then show ?thesis
    by (simp add: sbase_annotations_def)
next
  case False
  have "list_all (\<lambda>(provider, data). provider \<in> set [''SBO'', ''sbo''] \<longrightarrow> data \<noteq> [])
          (standardize ann)"
    using assms by (induction ann) (auto simp: sbo_given_def standardize_def)
  from annotate_providers_succeeds [OF this]
  obtain sb' where "annotate_providers (standardize ann)
                      (sb\<lparr>sb_meta_id := Some (''meta_'' @ sb_id sb)\<rparr>) = Inr sb'"
    by blast
  then show ?thesis
    using False by (simp add: sbase_annotations_def)
qed

lemma map_err_succeeds:
  "\<forall>x \<in> set xs. \<exists>y. g x = Inr y \<Longrightarrow> \<exists>ys. map_err g xs = Inr ys"
  by (induction xs) auto

lemma fold_err_succeeds:
  "\<forall>x \<in> set xs. \<forall>st. \<exists>st'. g x st = Inr st' \<Longrightarrow> \<exists>st'. fold_err g xs st = Inr st'"
proof (induction xs arbitrary: st)
  case Nil
  show ?case by simp
next
  case (Cons x xs)
  then obtain st1 where "g x st = Inr st1"
    by (meson list.set_intros(1))
  then show ?case
    using Cons by simp
qed

lemma write_species_succeeds:
  assumes "sbo_given (met_annotation met)"
  shows "\<exists>s. write_species f met = Inr s"
proof -
  let ?s = "\<lparr>sb_id = apply_replace f F_SPECIE_REV (met_id met), sb_name = met_name met,
             sb_meta_id = None, sb_sbo_term = None, sb_cvterms = [], sb_notes = [],
             sp_compartment = met_compartment met, sp_constant = True,
             sp_boundary_condition = True, sp_has_only_substance_units = False,
             sp_charge = None,
             sp_fbc = Some \<lparr>fsp_charge = met_charge met,
                             fsp_chemical_formula = met_formula met\<rparr>\<rparr>"
  obtain s1 where "sbase_annotations ?s (met_annotation met) = Inr s1"
    using sbase_annotations_succeeds [OF assms] by blast
  then show ?thesis
    by (simp add: write_species_def Let_def)
qed

lemma write_gene_succeeds:
  assumes "sbo_given (gene_annotation g)"
  shows "\<exists>gp. write_gene f g = Inr gp"
proof -
  let ?gid = "apply_replace f F_GENE_REV (gene_id g)"
  let ?gp = "\<lparr>sb_id = ?gid,
              sb_name = (case gene_name g of None \<Rightarrow> ?gid
                         | Some n \<Rightarrow> (if length n = 0 then ?gid else n)),
              sb_meta_id = None, sb_sbo_term = None,
              sb_cvterms = [], sb_notes = [], gp_label = ?gid\<rparr>"
  obtain gp1 where "sbase_annotations ?gp (gene_annotation g) = Inr gp1"
    using sbase_annotations_succeeds [OF assms] by blast
  then show ?thesis
    by (simp add: write_gene_def Let_def)
qed

lemma write_group_succeeds:
  assumes "sbo_given (grp_annotation grp)"
  shows "\<exists>g. write_group f grp = Inr g"
proof -
  let ?g = "sbase_notes_dict
              (setKind (grp_kind grp)
                \<lparr>sb_id = grp_id grp, sb_name = grp_name grp, sb_meta_id = None,
                 sb_sbo_term = None, sb_cvterms = [], sb_notes = [],
                 gr_kind = None, gr_members = []\<rparr>) (grp_notes grp)"
  obtain g2 where "sbase_annotations ?g (grp_annotation grp) = Inr g2"
    using sbase_annotations_succeeds [OF assms] by blast
  then show ?thesis
    by (simp add: write_group_def Let_def)
qed

lemma create_bound_succeeds:
  assumes "bound_type = ''lower_bound'' \<or> bound_type = ''upper_bound''"
  shows "\<exists>res. create_bound cfg model reaction bound_type f True (Some u) = Inr res"
proof -
  obtain v where "getattr_bound reaction bound_type = Inr v"
    using assms by (auto simp: getattr_bound_def)
  then show ?thesis
    unfolding create_bound_unfold by (simp add: create_parameter_def Let_def)
qed

lemma write_reaction_succeeds:
  assumes "sbo_given (rxn_annotation reaction)"
  shows "\<exists>st'. write_reaction cfg lib M f True (Some u) reaction st = Inr st'"
proof -
  let ?r = "\<lparr>sb_id = apply_replace f F_REACTION_REV (rxn_id reaction),
             sb_name = rxn_name reaction, sb_meta_id = None,
             sb_sbo_term = None, sb_cvterms = [], sb_notes = [],
             rx_fast = False, rx_reversible = (rxn_lower_bound reaction < 0),
             rx_reactants = [], rx_products = [],
             rx_fbc = Some \<lparr>frp_lower_flux_bound = [], frp_upper_flux_bound = [],
                             frp_gpa = None\<rparr>,
             rx_kinetic_law = None\<rparr>"
  obtain r1 where a: "sbase_annotations ?r (rxn_annotation reaction) = Inr r1"
    using sbase_annotations_succeeds [OF assms] by blast
  obtain model1 lb_id
    where lb: "create_bound cfg (fst st) reaction ''lower_bound'' f True (Some u) = Inr (model1, lb_id)"
    using create_bound_succeeds [of "''lower_bound''" cfg "fst st" reaction f u] by auto
  obtain model2 ub_id
    where ub: "create_bound cfg model1 reaction ''upper_bound'' f True (Some u) = Inr (model2, ub_id)"
    using create_bound_succeeds [of "''upper_bound''" cfg model1 reaction f u] by auto
  show ?thesis
    using a lb ub by (simp add: write_reaction_def Let_def)
qed

lemma model_to_sbml_succeeds:
  assumes "writable M"
  shows "\<exists>doc. model_to_sbml cfg lib M f True = Inr doc"
proof -
  let ?u = "\<lparr>ud_id = fst UNITS_FLUX, ud_units = snd UNITS_FLUX\<rparr>"
  let ?m0 = "(new_model M)\<lparr>md_unit_definitions := [?u]\<rparr>"
  have "\<exists>doc0. write_meta M new_document = Inr doc0"
  proof (cases "cm_sbml M")
    case None
    then show ?thesis
      by (simp add: write_meta_def)
  next
    case (Some meta)
    then have "sbo_given (meta_annotation meta)"
      using assms by (simp add: writable_def)
    from sbase_annotations_succeeds [OF this]
    obtain doc' where "sbase_annotations new_document (meta_annotation meta) = Inr doc'"
      by blast
    then show ?thesis
      using Some by (simp add: write_meta_def)
  qed
  then obtain doc0 where d0: "write_meta M new_document = Inr doc0"
    by blast
  obtain model1 where m1: "create_default_parameters cfg M ?m0 = Inr model1"
    using create_default_parameters_result [of cfg M ?m0] by blast
  obtain species where sp: "map_err (write_species f) (cm_metabolites M) = Inr species"
    using assms map_err_succeeds [of "cm_metabolites M" "write_species f"] write_species_succeeds
    by (auto simp: writable_def list_all_iff)
  obtain gps where gp: "map_err (write_gene f) (cm_genes M) = Inr gps"
    using assms map_err_succeeds [of "cm_genes M" "write_gene f"] write_gene_succeeds
    by (auto simp: writable_def list_all_iff)
  obtain ot where ot: "map_of SHORT_LONG_DIRECTION (cm_direction M) = Some ot"
    using assms by (auto simp: writable_def SHORT_LONG_DIRECTION_def)
  let ?st = "(model1\<lparr>md_compartments := map write_compartment (cm_compartments M),
                      md_species := species\<rparr>, [] :: flux_objective list)"
  have "\<forall>r \<in> set (cm_reactions M). \<forall>st. \<exists>st'. write_reaction cfg lib M f True (Some ?u) r st = Inr st'"
    using assms write_reaction_succeeds by (auto simp: writable_def list_all_iff)
  then obtain st3
    where rs: "fold_err (write_reaction cfg lib M f True (Some ?u)) (cm_reactions M) ?st = Inr st3"
    using fold_err_succeeds [of "cm_reactions M" "write_reaction cfg lib M f True (Some ?u)" ?st]
    by blast
  obtain model3 flux_objs where st3: "st3 = (model3, flux_objs)"
    by (cases st3)
  obtain groups where gr: "map_err (write_group f) (cm_groups M) = Inr groups"
    using assms map_err_succeeds [of "cm_groups M" "write_group f"] write_group_succeeds
    by (auto simp: writable_def list_all_iff)
  show ?thesis
    using d0 m1 sp gp ot rs st3 gr by (simp add: model_to_sbml_def Let_def)
qed

section \<open>Properties of the reader\<close>

lemma find_result:
  "find P xs = Some y \<Longrightarrow> P y \<and> y \<in> set xs"
  by (induction xs) (auto split: if_splits)

lemma get_by_id_ident:
  assumes "get_by_id ident xs i = Inr x"
  shows "ident x = i \<and> x \<in> set xs"
proof (cases "find (\<lambda>x. ident x = i) xs")
  case None
  then show ?thesis
    using assms by (simp add: get_by_id_def)
next
  case (Some y)
  then have "x = y"
    using assms by (simp add: get_by_id_def)
  then show ?thesis
    using find_result [OF Some] by simp
qed

text \<open>
  The loop that resolves the stoichiometry of a reaction never drops an entry: it keeps
  every entry whose id is outside \<open>boundary_ids\<close> and belongs to a metabolite of the model,
  and raises \<open>AttributeError\<close> at the first entry that is in \<open>boundary_ids\<close> or unknown. A
  reaction that is read therefore has all its references, under the ids after the species
  transform, and none of them is in \<open>boundary_ids\<close>, which holds the ids as they are in
  the document.
\<close>

lemma get_by_id_missing:
  "i \<notin> ident ` set xs \<Longrightarrow> get_by_id ident xs i = Inl (KeyError i)"
proof -
  assume "i \<notin> ident ` set xs"
  then have "find (\<lambda>x. ident x = i) xs = None"
    by (auto simp add: find_None_iff)
  then show ?thesis
    by (simp add: get_by_id_def)
qed


lemma resolve_entry_raises:
  assumes "fst entry \<in> set b \<or> fst entry \<notin> met_id ` set mets"
  shows "resolve_entry b mets entry st
         = Inl (AttributeError ''Reaction object has no attribute getId'')"
proof (cases "fst entry \<in> set b")
  case True
  then show ?thesis
    by (simp add: resolve_entry_def Let_def)
next
  case False
  then have "get_by_id met_id mets (fst entry) = Inl (KeyError (fst entry))"
    using assms get_by_id_missing by blast
  then show ?thesis
    using False by (simp add: resolve_entry_def Let_def)
qed

lemma resolve_entry_keeps:
  assumes "fst entry \<notin> set b" and "fst entry \<in> met_id ` set mets"
  shows "resolve_entry b mets entry st = Inr (st @ [entry])"
proof (cases "get_by_id met_id mets (fst entry)")
  case (Inl e)
  have "find (\<lambda>x. met_id x = fst entry) mets \<noteq> None"
    using assms(2) by (auto simp add: find_None_iff)
  then show ?thesis
    using Inl by (auto simp add: get_by_id_def)
next
  case (Inr m)
  then have "(met_id m, snd entry) = entry"
    using get_by_id_ident [OF Inr] by simp
  then show ?thesis
    using Inr assms(1) by (simp add: resolve_entry_def Let_def)
qed

lemma resolve_entries_raise:
  "\<exists>e \<in> set stoichiometry. fst e \<in> set b \<or> fst e \<notin> met_id ` set mets \<Longrightarrow>
   fold_err (resolve_entry b mets) stoichiometry st
     = Inl (AttributeError ''Reaction object has no attribute getId'')"
proof (induction stoichiometry arbitrary: st)
  case Nil
  then show ?case by simp
next
  case (Cons entry rest)
  show ?case
  proof (cases "fst entry \<in> set b \<or> fst entry \<notin> met_id ` set mets")
    case True
    then show ?thesis
      using resolve_entry_raises [OF True] by simp
  next
    case False
    then have k: "resolve_entry b mets entry st = Inr (st @ [entry])"
      using resolve_entry_keeps by blast
    have "\<exists>e \<in> set rest. fst e \<in> set b \<or> fst e \<notin> met_id ` set mets"
      using Cons.prems False by auto
    then show ?thesis
      using Cons.IH k by simp
  qed
qed

lemma object_stoichiometry_raises:
  assumes "\<exists>e \<in> set stoichiometry. fst e \<in> set b \<or> fst e \<notin> met_id ` set mets"
  shows "object_stoichiometry b mets stoichiometry
         = Inl (AttributeError ''Reaction object has no attribute getId'')"
  using resolve_entries_raise [OF assms] by (simp add: object_stoichiometry_def)











section \<open>Reading a written document\<close>











end
